theory Spec2Isabelle
  imports Main "HOL-Library.Word"
begin

section \<open>OpaqueSwap: the fixed-rate swap contract\<close>

text \<open>
  The contract \<^verbatim>\<open>OpaqueSwap\<close> (Solidity, in \<^verbatim>\<open>src/deploy/opaqueSwap.ts\<close> after the
  deployment script) swaps two confidential tokens at the fixed rate 3100. An \<^verbatim>\<open>euint64\<close>
  is a handle of an encrypted unsigned 64-bit integer; it is modelled by the 64-bit word it
  encrypts, so that the homomorphic operations are the word operations (multiplication
  wraps at \<open>2 ^ 64\<close>, division truncates). An address is a 160-bit word, \<open>0\<close> being
  \<^verbatim>\<open>address(0)\<close>. A revert is the \<open>Inl\<close> branch of a sum; it carries no state, as the
  failed call leaves none.
\<close>

type_synonym address = "160 word"
type_synonym euint64 = "64 word"

datatype revert = InvalidTokenAddress | InvalidInputProof | UnauthorizedSpender

definition WETH_TO_WUSDT_RATE :: "64 word" where
  "WETH_TO_WUSDT_RATE = 3100"

subsection \<open>The FHE library at its boundary\<close>

text \<open>
  The library \<^verbatim>\<open>@fhevm/solidity\<close> is a dependency and not part of the sources; the contract
  uses three of its operations on \<^verbatim>\<open>euint64\<close>.

  Modelled from the spec: an external input is a ciphertext handle with a proof bound to one
  contract and one submitting account.
\<close>

record externalEuint64 =
  cleartext :: "64 word"
  boundContract :: address
  boundUser :: address

text \<open>
  Modelled from the spec: \<^verbatim>\<open>FHE.fromExternal\<close> accepts an input only for the contract and
  the account its proof is bound to, and reverts otherwise.
\<close>

definition FHE_fromExternal :: "address \<Rightarrow> address \<Rightarrow> externalEuint64 \<Rightarrow> revert + euint64" where
  "FHE_fromExternal contract msg_sender inp =
     (if boundContract inp = contract \<and> boundUser inp = msg_sender
      then Inr (cleartext inp) else Inl InvalidInputProof)"

text \<open>
  Modelled from the spec: \<^verbatim>\<open>FHE.mul\<close> by a plaintext constant multiplies the encrypted
  unsigned 64-bit integer; the product of two 64-bit values is taken modulo \<open>2 ^ 64\<close>.
\<close>

definition FHE_mul :: "euint64 \<Rightarrow> 64 word \<Rightarrow> euint64" where
  "FHE_mul a b = a * b"

text \<open>
  Modelled from the spec: \<^verbatim>\<open>FHE.div\<close> by a plaintext constant is truncating integer
  division of the encrypted unsigned 64-bit integer. (\<^verbatim>\<open>FHE.allowThis\<close> only grants the
  contract access to a handle and changes no value; it has no counterpart here.)
\<close>

definition FHE_div :: "euint64 \<Rightarrow> 64 word \<Rightarrow> euint64" where
  "FHE_div a b = a div b"

subsection \<open>The confidential ledger (one per token)\<close>

text \<open>
  The token contracts \<^verbatim>\<open>wETH\<close> and \<^verbatim>\<open>wUSDT\<close> (interface \<^verbatim>\<open>IERC7984\<close>) are not part of the
  sources: only their callers and tests are.

  Modelled from the spec: a ledger maps every account to exactly one encrypted amount (zero
  for an account with no recorded balance) and holds the operator grants
  \<open>(owner, delegate, expiresAt)\<close>. The spec lets a transfer clamp against the available
  balance and does not say what a shortfall moves, so the ledger carries the mode: nothing
  (\<^verbatim>\<open>AllOrNothing\<close>), or the available balance (\<^verbatim>\<open>Saturating\<close>).
\<close>

datatype clamp_mode = AllOrNothing | Saturating

record ledger =
  balances :: "address \<Rightarrow> 64 word"
  operators :: "address \<Rightarrow> address \<Rightarrow> 48 word option"
  clampMode :: clamp_mode

text \<open>
  Modelled from the spec: \<^verbatim>\<open>balanceOf(account)\<close> reads the account's encrypted amount.
\<close>

definition balanceOf :: "ledger \<Rightarrow> address \<Rightarrow> euint64" where
  "balanceOf l account = balances l account"

text \<open>
  Modelled from the spec: \<^verbatim>\<open>isOperator(owner, delegate)\<close> is true iff an unexpired grant
  exists, that is while \<open>currentTime < expiresAt\<close>.
\<close>

definition isOperator :: "nat \<Rightarrow> ledger \<Rightarrow> address \<Rightarrow> address \<Rightarrow> bool" where
  "isOperator now l owner delegate =
     (case operators l owner delegate of None \<Rightarrow> False | Some expiresAt \<Rightarrow> now < unat expiresAt)"

text \<open>
  Modelled from the spec: \<^verbatim>\<open>setOperator(delegate, expiresAt)\<close> is the owner's call; it
  replaces any prior grant of the caller to that delegate.
\<close>

definition setOperator :: "ledger \<Rightarrow> address \<Rightarrow> address \<Rightarrow> 48 word \<Rightarrow> ledger" where
  "setOperator l msg_sender delegate expiresAt =
     l\<lparr>operators := (operators l)(msg_sender := (operators l msg_sender)(delegate \<mapsto> expiresAt))\<rparr>"

text \<open>
  Modelled from the spec: the amount a transfer actually moves is the requested amount
  clamped against the available balance.
\<close>

definition clamp :: "clamp_mode \<Rightarrow> 64 word \<Rightarrow> 64 word \<Rightarrow> 64 word" where
  "clamp m available requested =
     (if requested \<le> available then requested
      else (case m of AllOrNothing \<Rightarrow> 0 | Saturating \<Rightarrow> available))"

text \<open>
  Modelled from the spec: the debit and the credit of a transfer, by homomorphic
  subtraction and addition of the amount actually moved, which is returned.
\<close>

definition move :: "ledger \<Rightarrow> address \<Rightarrow> address \<Rightarrow> euint64 \<Rightarrow> ledger \<times> euint64" where
  "move l src dst amount =
     (let transferred = clamp (clampMode l) (balances l src) amount;
          debited = (balances l)(src := balances l src - transferred);
          credited = debited(dst := debited dst + transferred)
      in (l\<lparr>balances := credited\<rparr>, transferred))"

text \<open>
  Modelled from the spec: \<^verbatim>\<open>confidentialTransfer(to, amount)\<close> moves the caller's own
  funds and returns the amount actually transferred; the spec names no failure of it.
\<close>

definition confidentialTransfer ::
  "ledger \<Rightarrow> address \<Rightarrow> address \<Rightarrow> euint64 \<Rightarrow> revert + ledger \<times> euint64" where
  "confidentialTransfer l msg_sender dst amount = Inr (move l msg_sender dst amount)"

text \<open>
  Modelled from the spec: \<^verbatim>\<open>confidentialTransferFrom(from, to, amount)\<close> requires
  \<^verbatim>\<open>isOperator(from, caller)\<close> at call time and fails as a whole otherwise.
\<close>

definition confidentialTransferFrom ::
  "nat \<Rightarrow> ledger \<Rightarrow> address \<Rightarrow> address \<Rightarrow> address \<Rightarrow> euint64 \<Rightarrow> revert + ledger \<times> euint64" where
  "confidentialTransferFrom now l msg_sender src dst amount =
     (if isOperator now l src msg_sender then Inr (move l src dst amount)
      else Inl UnauthorizedSpender)"

text \<open>
  Modelled from the spec: the total supply of a token is the sum of all balances; minting
  keeps it within 64 bits.
\<close>

definition totalSupply :: "ledger \<Rightarrow> nat" where
  "totalSupply l = (\<Sum>account\<in>UNIV. unat (balances l account))"

definition supply_fits :: "ledger \<Rightarrow> bool" where
  "supply_fits l = (totalSupply l < 2 ^ 64)"

subsection \<open>The contract\<close>

text \<open>
  The chain state the contract touches is the store of token ledgers by contract address.
  The contract's own state is its address and the two immutable token references.
\<close>

type_synonym chain = "address \<Rightarrow> ledger"

record OpaqueSwap =
  this :: address
  wETH :: address
  wUSDT :: address

datatype event =
  SwapWethForWusdt address euint64 euint64
  | SwapWusdtForWeth address euint64 euint64

definition constructor :: "address \<Rightarrow> address \<Rightarrow> address \<Rightarrow> revert + OpaqueSwap" where
  "constructor deployedAt wethAddress wusdtAddress =
     (if wethAddress = 0 \<or> wusdtAddress = 0 then Inl InvalidTokenAddress
      else Inr \<lparr>this = deployedAt, wETH = wethAddress, wUSDT = wusdtAddress\<rparr>)"

definition getTokenAddresses :: "OpaqueSwap \<Rightarrow> address \<times> address" where
  "getTokenAddresses sw = (wETH sw, wUSDT sw)"

definition swapWethForWusdt ::
  "nat \<Rightarrow> OpaqueSwap \<Rightarrow> chain \<Rightarrow> address \<Rightarrow> externalEuint64 \<Rightarrow> revert + chain \<times> euint64 \<times> event" where
  "swapWethForWusdt now sw ch msg_sender encryptedWethAmount =
     (case FHE_fromExternal (this sw) msg_sender encryptedWethAmount of
        Inl e \<Rightarrow> Inl e
      | Inr amountIn \<Rightarrow>
          let amountOut = FHE_mul amountIn WETH_TO_WUSDT_RATE in
          (case confidentialTransferFrom now (ch (wETH sw)) (this sw) msg_sender (this sw) amountIn of
             Inl e \<Rightarrow> Inl e
           | Inr (l1, transferredIn) \<Rightarrow>
               let ch1 = ch(wETH sw := l1) in
               (case confidentialTransfer (ch1 (wUSDT sw)) (this sw) msg_sender amountOut of
                  Inl e \<Rightarrow> Inl e
                | Inr (l2, transferredOut) \<Rightarrow>
                    Inr (ch1(wUSDT sw := l2), transferredOut,
                         SwapWethForWusdt msg_sender amountIn transferredOut))))"

definition swapWusdtForWeth ::
  "nat \<Rightarrow> OpaqueSwap \<Rightarrow> chain \<Rightarrow> address \<Rightarrow> externalEuint64 \<Rightarrow> revert + chain \<times> euint64 \<times> event" where
  "swapWusdtForWeth now sw ch msg_sender encryptedUsdtAmount =
     (case FHE_fromExternal (this sw) msg_sender encryptedUsdtAmount of
        Inl e \<Rightarrow> Inl e
      | Inr amountIn \<Rightarrow>
          let amountOut = FHE_div amountIn WETH_TO_WUSDT_RATE in
          (case confidentialTransferFrom now (ch (wUSDT sw)) (this sw) msg_sender (this sw) amountIn of
             Inl e \<Rightarrow> Inl e
           | Inr (l1, transferredIn) \<Rightarrow>
               let ch1 = ch(wUSDT sw := l1) in
               (case confidentialTransfer (ch1 (wETH sw)) (this sw) msg_sender amountOut of
                  Inl e \<Rightarrow> Inl e
                | Inr (l2, transferredOut) \<Rightarrow>
                    Inr (ch1(wETH sw := l2), transferredOut,
                         SwapWusdtForWeth msg_sender amountIn transferredOut))))"

text \<open>
  The chain state after a transaction that calls the contract: the state the call returns
  or, when the call reverts, the state before it (the platform undoes a reverted call; the
  contract holds no rollback code of its own).
\<close>

definition transact :: "(chain \<Rightarrow> revert + chain \<times> euint64 \<times> event) \<Rightarrow> chain \<Rightarrow> chain" where
  "transact call ch = (case call ch of Inl e \<Rightarrow> ch | Inr (ch', r) \<Rightarrow> ch')"

subsection \<open>The deployment of the tests\<close>

text \<open>
  The fixture of the contract tests (\<^verbatim>\<open>src/test/OpaqueSwapSepolia.ts\<close> and the local suite
  after it): one account, the swap contract and the two tokens at distinct addresses, the
  account's operator grant to the swap contract on both tokens until time 3600, and
  balances minted to the account and to the swap contract. \<^verbatim>\<open>encryptFor\<close> is the client's
  \<^verbatim>\<open>createEncryptedInput(contract, user).add64(amount).encrypt()\<close>.
\<close>

definition UNIT :: "64 word" where "UNIT = 1000000"
definition alice :: address where "alice = 0xA11CE"
definition swapAddress :: address where "swapAddress = 0x5A"
definition wethAddress :: address where "wethAddress = 0xE7"
definition wusdtAddress :: address where "wusdtAddress = 0xD7"

definition deployedSwap :: OpaqueSwap where
  "deployedSwap = \<lparr>this = swapAddress, wETH = wethAddress, wUSDT = wusdtAddress\<rparr>"

definition fixtureLedger :: "clamp_mode \<Rightarrow> 64 word \<Rightarrow> 64 word \<Rightarrow> ledger" where
  "fixtureLedger m aliceBalance swapBalance =
     setOperator
       \<lparr>balances = (\<lambda>_. 0)(alice := aliceBalance, swapAddress := swapBalance),
        operators = (\<lambda>_ _. None),
        clampMode = m\<rparr>
       alice swapAddress 3600"

definition emptyLedger :: ledger where
  "emptyLedger = \<lparr>balances = (\<lambda>_. 0), operators = (\<lambda>_ _. None), clampMode = AllOrNothing\<rparr>"

definition fixtureChain :: "clamp_mode \<Rightarrow> 64 word \<Rightarrow> 64 word \<Rightarrow> 64 word \<Rightarrow> 64 word \<Rightarrow> chain" where
  "fixtureChain m aliceWeth swapWeth aliceWusdt swapWusdt =
     (\<lambda>_. emptyLedger)(wethAddress := fixtureLedger m aliceWeth swapWeth,
                        wusdtAddress := fixtureLedger m aliceWusdt swapWusdt)"

definition encryptFor :: "address \<Rightarrow> address \<Rightarrow> 64 word \<Rightarrow> externalEuint64" where
  "encryptFor contractAddress userAddress amount =
     \<lparr>cleartext = amount, boundContract = contractAddress, boundUser = userAddress\<rparr>"

section \<open>DexApp: the client\<close>

text \<open>
  The React component \<^verbatim>\<open>DexApp\<close> (\<^verbatim>\<open>src/unnamed/part_000\<close>) holds the client state and
  the handlers \<^verbatim>\<open>refreshOnChainData\<close> and \<^verbatim>\<open>decryptBalance\<close>. A handler is modelled by the
  list of effects it performs, in order, on the state it was called with: the calls of the
  state setters and the calls to services (contract reads, the encryption instance, the
  wallet's signer, the decryption relayer). What the services answer is the environment.

  \<^verbatim>\<open>Number.toString\<close> renders a natural number in decimal; \<^verbatim>\<open>signature.replace('0x', '')\<close>
  removes the first occurrence of \<^verbatim>\<open>0x\<close>.
\<close>

definition digits :: string where "digits = ''0123456789''"

function toString :: "nat \<Rightarrow> string" where
  "toString n = (if n < 10 then [digits ! n] else toString (n div 10) @ [digits ! (n mod 10)])"
  by pat_completeness auto
termination
  by (relation "measure id") auto

declare toString.simps [simp del]

fun replace0x :: "string \<Rightarrow> string" where
  "replace0x (c # d # rest) = (if c = CHR ''0'' \<and> d = CHR ''x'' then rest else c # replace0x (d # rest))"
| "replace0x cs = cs"

datatype TokenKey = Weth | Wusdt

record 'a per_token =
  weth :: 'a
  wusdt :: 'a

record Addresses = "string per_token" +
  swap :: string

definition pick :: "TokenKey \<Rightarrow> ('a, 'b) per_token_scheme \<Rightarrow> 'a" where
  "pick token r = (case token of Weth \<Rightarrow> weth r | Wusdt \<Rightarrow> wusdt r)"

definition ZERO_HANDLE :: string where
  "ZERO_HANDLE = ''0x0000000000000000000000000000000000000000000000000000000000000000''"

definition DECIMALS :: nat where
  "DECIMALS = 6"

text \<open>
  The state of the component: the values of the hooks (\<^verbatim>\<open>address\<close>, \<^verbatim>\<open>isConnected\<close>, whether
  the encryption \<^verbatim>\<open>instance\<close> and the \<^verbatim>\<open>signer\<close> exist; the field \<^verbatim>\<open>fhevmInstance\<close> stands
  for \<^verbatim>\<open>instance\<close>) and the \<^verbatim>\<open>useState\<close> cells.
\<close>

record DexApp =
  address :: "string option"
  isConnected :: bool
  addresses :: Addresses
  fhevmInstance :: bool
  signer :: bool
  encryptedBalances :: "string option per_token"
  decryptedBalances :: "int option per_token"
  operatorStatus :: "bool per_token"
  isRefreshing :: bool
  isDecrypting :: "TokenKey option"
  statusMessage :: "string option"

text \<open>
  The environment: \<^verbatim>\<open>isAddress\<close> of viem, the clock \<^verbatim>\<open>Date.now()\<close> in milliseconds, and the
  outcome of each service call: a value, or what it throws. \<^verbatim>\<open>userDecrypt\<close> answers with a
  mapping from handles to clear values; the entry for a handle is the value
  \<^verbatim>\<open>BigInt\<close> yields for it, or what the conversion throws. \<^verbatim>\<open>readContracts\<close> is the outcome
  of the four reads under \<^verbatim>\<open>Promise.all\<close>.
\<close>

datatype thrown = Error string | NonError

record env =
  isAddress :: "string \<Rightarrow> bool"
  nowMs :: nat
  generateKeypair :: "string \<times> string"
  signTypedData :: "thrown + string"
  userDecrypt :: "thrown + (string \<Rightarrow> thrown + int)"
  readContracts :: "thrown + string \<times> string \<times> bool \<times> bool"

text \<open>
  The effects. \<^verbatim>\<open>ResetDecrypted\<close> is \<^verbatim>\<open>setDecryptedBalances({ weth: null, wusdt: null })\<close>;
  \<^verbatim>\<open>SetDecryptedBalance\<close> is the functional update of one token's entry. The service calls
  carry the arguments the properties below speak about.
\<close>

datatype effect =
    SetStatusMessage "string option"
  | SetIsRefreshing bool
  | SetIsDecrypting "TokenKey option"
  | SetEncryptedBalances "string option per_token"
  | SetOperatorStatus "bool per_token"
  | ResetDecrypted
  | SetDecryptedBalance TokenKey int
  | ReadContracts
  | GenerateKeypair
  | CreateEIP712 string "string list" string string
  | SignTypedData
  | UserDecrypt "(string \<times> string) list" string string string "string list" string string string

fun apply_effect :: "effect \<Rightarrow> DexApp \<Rightarrow> DexApp" where
  "apply_effect (SetStatusMessage m) st = st\<lparr>statusMessage := m\<rparr>"
| "apply_effect (SetIsRefreshing b) st = st\<lparr>isRefreshing := b\<rparr>"
| "apply_effect (SetIsDecrypting t) st = st\<lparr>isDecrypting := t\<rparr>"
| "apply_effect (SetEncryptedBalances b) st = st\<lparr>encryptedBalances := b\<rparr>"
| "apply_effect (SetOperatorStatus b) st = st\<lparr>operatorStatus := b\<rparr>"
| "apply_effect ResetDecrypted st = st\<lparr>decryptedBalances := \<lparr>weth = None, wusdt = None\<rparr>\<rparr>"
| "apply_effect (SetDecryptedBalance Weth v) st =
     st\<lparr>decryptedBalances := (decryptedBalances st)\<lparr>weth := Some v\<rparr>\<rparr>"
| "apply_effect (SetDecryptedBalance Wusdt v) st =
     st\<lparr>decryptedBalances := (decryptedBalances st)\<lparr>wusdt := Some v\<rparr>\<rparr>"
| "apply_effect _ st = st"

definition run :: "effect list \<Rightarrow> DexApp \<Rightarrow> DexApp" where
  "run es st = fold apply_effect es st"

fun is_service_call :: "effect \<Rightarrow> bool" where
  "is_service_call ReadContracts = True"
| "is_service_call GenerateKeypair = True"
| "is_service_call (CreateEIP712 publicKey contractAddresses startTimeStamp durationDays) = True"
| "is_service_call SignTypedData = True"
| "is_service_call (UserDecrypt pairs privateKey publicKey signature contractAddresses userAddress startTimeStamp durationDays) = True"
| "is_service_call _ = False"

fun enters_busy :: "effect \<Rightarrow> bool" where
  "enters_busy (SetIsDecrypting (Some t)) = True"
| "enters_busy _ = False"

text \<open>
  \<^verbatim>\<open>!s\<close> on a string that may be missing is true for \<^verbatim>\<open>null\<close>, \<^verbatim>\<open>undefined\<close> and the empty
  string. \<^verbatim>\<open>typedAddresses\<close> is the memoised value: the addresses when all three are
  well-formed, \<^verbatim>\<open>null\<close> otherwise. The message of a caught value is its own when it is an
  \<^verbatim>\<open>Error\<close> and the handler's fallback otherwise.
\<close>

definition falsy :: "string option \<Rightarrow> bool" where
  "falsy s = (s = None \<or> s = Some [])"

definition addressesReady :: "env \<Rightarrow> DexApp \<Rightarrow> bool" where
  "addressesReady e st =
     (isAddress e (swap (addresses st)) \<and> isAddress e (weth (addresses st))
      \<and> isAddress e (wusdt (addresses st)))"

definition typedAddresses :: "env \<Rightarrow> DexApp \<Rightarrow> Addresses option" where
  "typedAddresses e st = (if \<not> addressesReady e st then None else Some (addresses st))"

definition message :: "thrown \<Rightarrow> string \<Rightarrow> string" where
  "message err fallback = (case err of Error m \<Rightarrow> m | NonError \<Rightarrow> fallback)"

definition refreshOnChainData :: "env \<Rightarrow> DexApp \<Rightarrow> effect list" where
  "refreshOnChainData e st =
     (if falsy (address st) \<or> typedAddresses e st = None then []
      else [SetIsRefreshing True, SetStatusMessage None, ReadContracts]
         @ (case readContracts e of
              Inr (wethBalance, wusdtBalance, wethOperator, wusdtOperator) \<Rightarrow>
                [SetEncryptedBalances \<lparr>weth = Some wethBalance, wusdt = Some wusdtBalance\<rparr>,
                 SetOperatorStatus \<lparr>weth = wethOperator, wusdt = wusdtOperator\<rparr>,
                 ResetDecrypted]
            | Inl err \<Rightarrow>
                [SetStatusMessage (Some (message err ''Failed to refresh on-chain data''))])
         @ [SetIsRefreshing False])"

definition startTimeStamp :: "env \<Rightarrow> string" where
  "startTimeStamp e = toString (nowMs e div 1000)"

definition durationDays :: string where
  "durationDays = ''10''"

definition handshake :: "env \<Rightarrow> TokenKey \<Rightarrow> string \<Rightarrow> Addresses \<Rightarrow> string \<Rightarrow> effect list" where
  "handshake e token handle typed userAddress =
     (let (publicKey, privateKey) = generateKeypair e;
          contractAddress = (if token = Weth then weth typed else wusdt typed);
          handleContractPairs = [(handle, contractAddress)];
          start = startTimeStamp e;
          duration = durationDays;
          contractAddresses = [contractAddress]
      in [GenerateKeypair, CreateEIP712 publicKey contractAddresses start duration, SignTypedData]
         @ (case signTypedData e of
              Inl err \<Rightarrow> [SetStatusMessage (Some (message err ''Failed to decrypt balance''))]
            | Inr signature \<Rightarrow>
                UserDecrypt handleContractPairs privateKey publicKey (replace0x signature)
                  contractAddresses userAddress start duration
                # (case userDecrypt e of
                     Inl err \<Rightarrow> [SetStatusMessage (Some (message err ''Failed to decrypt balance''))]
                   | Inr result \<Rightarrow>
                       (case result handle of
                          Inl err \<Rightarrow> [SetStatusMessage (Some (message err ''Failed to decrypt balance''))]
                        | Inr normalized \<Rightarrow> [SetDecryptedBalance token normalized]))))"

text \<open>
  \<^verbatim>\<open>decryptBalance\<close>: the guards, then the busy flag, then the handshake inside
  \<^verbatim>\<open>try\<close>, then \<^verbatim>\<open>finally\<close>. The handler suspends while the wallet signs and while the
  relayer decrypts; \<^verbatim>\<open>decryptBalance_start\<close> is the part that runs at the click (a guard
  returns, or the request starts and the rest is pending), and \<^verbatim>\<open>decryptBalance\<close> is the
  whole run. The three \<^verbatim>\<open>the\<close> below are applied to values the guards have shown present.
\<close>

datatype decrypt_start = Returned "effect list" | Started "effect list" "effect list"

definition decryptBalance_start :: "env \<Rightarrow> DexApp \<Rightarrow> TokenKey \<Rightarrow> decrypt_start" where
  "decryptBalance_start e st token =
     (if falsy (address st) \<or> typedAddresses e st = None \<or> \<not> fhevmInstance st
      then Returned [SetStatusMessage (Some ''Connect wallet and initialize encryption to decrypt balances.'')]
      else let handle = pick token (encryptedBalances st) in
        if falsy handle \<or> handle = Some ZERO_HANDLE
        then Returned [SetStatusMessage (Some ''Encrypted balance not available yet.'')]
        else if \<not> signer st
        then Returned [SetStatusMessage (Some ''Signer not available.'')]
        else Started [SetIsDecrypting (Some token), SetStatusMessage None]
               (handshake e token (the handle) (the (typedAddresses e st)) (the (address st))
                @ [SetIsDecrypting None]))"

definition decryptBalance :: "env \<Rightarrow> DexApp \<Rightarrow> TokenKey \<Rightarrow> effect list" where
  "decryptBalance e st token =
     (case decryptBalance_start e st token of
        Returned es \<Rightarrow> es
      | Started es rest \<Rightarrow> es @ rest)"

text \<open>
  Rendering: \<^verbatim>\<open>formatClear\<close> (with viem's \<^verbatim>\<open>formatUnits\<close> as a parameter) and the
  \<^verbatim>\<open>disabled\<close> attribute of a token's decrypt button.
\<close>

definition formatClear :: "(int \<Rightarrow> nat \<Rightarrow> string) \<Rightarrow> int option \<Rightarrow> string" where
  "formatClear formatUnits v = (case v of None \<Rightarrow> ''***'' | Some x \<Rightarrow> formatUnits x DECIMALS)"

definition decryptDisabled :: "DexApp \<Rightarrow> TokenKey \<Rightarrow> bool" where
  "decryptDisabled st token = (isDecrypting st = Some token \<or> \<not> fhevmInstance st \<or> \<not> isConnected st)"

text \<open>
  The component over time: the state together with the decrypt requests in flight, each
  with the effects its handler performs when it resumes. A click on an enabled decrypt
  button runs \<^verbatim>\<open>decryptBalance_start\<close>; a pending request of a token settles by running
  the rest of its handler.
\<close>

record ui =
  app :: DexApp
  inFlight :: "(TokenKey \<times> effect list) list"

datatype ui_event = ClickDecrypt TokenKey | DecryptSettles TokenKey

fun ui_step :: "env \<Rightarrow> ui \<Rightarrow> ui_event \<Rightarrow> ui" where
  "ui_step e u (ClickDecrypt token) =
     (if decryptDisabled (app u) token then u
      else (case decryptBalance_start e (app u) token of
              Returned es \<Rightarrow> u\<lparr>app := run es (app u)\<rparr>
            | Started es rest \<Rightarrow> \<lparr>app = run es (app u), inFlight = inFlight u @ [(token, rest)]\<rparr>))"
| "ui_step e u (DecryptSettles token) =
     (case find (\<lambda>p. fst p = token) (inFlight u) of
        None \<Rightarrow> u
      | Some p \<Rightarrow> \<lparr>app = run (snd p) (app u), inFlight = remove1 p (inFlight u)\<rparr>)"

definition ui_run :: "env \<Rightarrow> ui \<Rightarrow> ui_event list \<Rightarrow> ui" where
  "ui_run e u evs = fold (\<lambda>ev u'. ui_step e u' ev) evs u"

definition inFlightCount :: "ui \<Rightarrow> TokenKey \<Rightarrow> nat" where
  "inFlightCount u token = length (filter (\<lambda>p. fst p = token) (inFlight u))"

text \<open>
  The start time and the validity duration a service call carries, if it carries them.
\<close>

fun validity_of :: "effect \<Rightarrow> (string \<times> string) option" where
  "validity_of (CreateEIP712 publicKey contractAddresses start duration) = Some (start, duration)"
| "validity_of (UserDecrypt pairs privateKey publicKey signature contractAddresses userAddress start duration) =
     Some (start, duration)"
| "validity_of _ = None"

text \<open>
  The session start time in the unit of the duration, as the spec words the payload
  (days: the duration is \<^verbatim>\<open>durationDays\<close>); to be compared with \<^verbatim>\<open>startTimeStamp\<close>.
\<close>

definition startTimeInDays :: "env \<Rightarrow> string" where
  "startTimeInDays e = toString (nowMs e div 86400000)"

text \<open>
  A connected client with both balances read, at a fixed time, with services that succeed.
\<close>

definition demoHandle :: string where
  "demoHandle = ''0x7a1c000000000000000000000000000000000000000000000000000000000001''"

definition demoEnv :: env where
  "demoEnv = \<lparr>isAddress = (\<lambda>s. length s = 42 \<and> take 2 s = ''0x''),
              nowMs = 1762128000000,
              generateKeypair = (''publicKey'', ''privateKey''),
              signTypedData = Inr ''0x5161'',
              userDecrypt = Inr (\<lambda>h. Inr 5000000),
              readContracts = Inr (demoHandle, ZERO_HANDLE, True, False)\<rparr>"

definition demoApp :: DexApp where
  "demoApp = \<lparr>address = Some ''0x00000000000000000000000000000000000A11CE'',
              isConnected = True,
              addresses = \<lparr>weth = ''0x00000000000000000000000000000000000000E7'',
                           wusdt = ''0x00000000000000000000000000000000000000D7'',
                           swap = ''0x000000000000000000000000000000000000005A''\<rparr>,
              fhevmInstance = True,
              signer = True,
              encryptedBalances = \<lparr>weth = Some demoHandle, wusdt = Some demoHandle\<rparr>,
              decryptedBalances = \<lparr>weth = Some 5000000, wusdt = None\<rparr>,
              operatorStatus = \<lparr>weth = True, wusdt = False\<rparr>,
              isRefreshing = False,
              isDecrypting = None,
              statusMessage = None\<rparr>"

section \<open>Auxiliary facts\<close>

lemmas fixture_defs = UNIT_def alice_def swapAddress_def wethAddress_def wusdtAddress_def
  deployedSwap_def fixtureLedger_def fixtureChain_def encryptFor_def emptyLedger_def setOperator_def

lemmas swap_defs = swapWethForWusdt_def swapWusdtForWeth_def FHE_fromExternal_def FHE_mul_def
  FHE_div_def confidentialTransferFrom_def confidentialTransfer_def isOperator_def move_def
  clamp_def WETH_TO_WUSDT_RATE_def balanceOf_def transact_def

lemmas demo_defs = demoEnv_def demoApp_def demoHandle_def ZERO_HANDLE_def

lemmas ui_defs = decryptBalance_def decryptBalance_start_def handshake_def falsy_def
  typedAddresses_def addressesReady_def pick_def message_def run_def refreshOnChainData_def
  startTimeStamp_def durationDays_def

subsection \<open>The ledger\<close>

lemma clamp_le_available: "clamp m available requested \<le> available"
  by (cases m) (simp_all add: clamp_def)

lemma clamp_le_requested: "clamp m available requested \<le> requested"
  by (cases m) (auto simp: clamp_def)

lemma clamp_exact: "requested \<le> available \<Longrightarrow> clamp m available requested = requested"
  by (simp add: clamp_def)

lemma move_transferred: "snd (move l src dst amount) = clamp (clampMode l) (balances l src) amount"
  by (simp add: move_def Let_def)

lemma move_src:
  "src \<noteq> dst \<Longrightarrow> balances (fst (move l src dst amount)) src = balances l src - snd (move l src dst amount)"
  by (simp add: move_def Let_def)

lemma move_dst:
  "src \<noteq> dst \<Longrightarrow> balances (fst (move l src dst amount)) dst = balances l dst + snd (move l src dst amount)"
  by (simp add: move_def Let_def)

lemma move_other:
  "a \<noteq> src \<Longrightarrow> a \<noteq> dst \<Longrightarrow> balances (fst (move l src dst amount)) a = balances l a"
  by (simp add: move_def Let_def)

lemma move_self: "balances (fst (move l a a amount)) = balances l"
  by (simp add: move_def Let_def fun_eq_iff)

lemma sum_two_le:
  fixes f :: "address \<Rightarrow> nat"
  assumes "a \<noteq> b"
  shows "f a + f b \<le> sum f UNIV"
proof -
  have "sum f {a, b} \<le> sum f UNIV"
    by (rule sum_mono2) simp_all
  with assms show ?thesis by simp
qed

lemma sum_upd2:
  fixes f :: "address \<Rightarrow> nat"
  assumes "a \<noteq> b"
  shows "sum (f(a := x, b := y)) UNIV + f a + f b = sum f UNIV + x + y"
proof -
  have 1: "sum f UNIV = f a + (f b + sum f (UNIV - {a} - {b}))"
    using assms by (simp add: sum.remove[of UNIV a] sum.remove[of "UNIV - {a}" b])
  have 2: "sum (f(a := x, b := y)) UNIV = x + (y + sum (f(a := x, b := y)) (UNIV - {a} - {b}))"
    using assms by (simp add: sum.remove[of UNIV a] sum.remove[of "UNIV - {a}" b])
  have 3: "sum (f(a := x, b := y)) (UNIV - {a} - {b}) = sum f (UNIV - {a} - {b})"
    by (rule sum.cong) auto
  from 1 2 3 show ?thesis by simp
qed

lemma balances_pair_le_supply:
  "a \<noteq> b \<Longrightarrow> unat (balances l a) + unat (balances l b) \<le> totalSupply l"
  unfolding totalSupply_def by (rule sum_two_le)

lemma move_dst_unat:
  assumes "supply_fits l" "src \<noteq> dst"
  shows "unat (balances (fst (move l src dst amount)) dst) = unat (balances l dst) + unat (snd (move l src dst amount))"
proof -
  let ?t = "snd (move l src dst amount)"
  have "?t \<le> balances l src" by (simp add: move_transferred clamp_le_available)
  then have "unat ?t \<le> unat (balances l src)" by (simp add: word_le_nat_alt)
  moreover have "unat (balances l src) + unat (balances l dst) \<le> totalSupply l"
    using assms(2) by (rule balances_pair_le_supply)
  ultimately have "unat (balances l dst) + unat ?t < 2 ^ 64"
    using assms(1) by (simp add: supply_fits_def)
  then have "unat (balances l dst + ?t) = unat (balances l dst) + unat ?t"
    by (simp add: unat_add_lem[THEN iffD1])
  with assms(2) show ?thesis by (simp add: move_dst)
qed

lemma move_src_unat:
  assumes "src \<noteq> dst"
  shows "unat (balances (fst (move l src dst amount)) src) + unat (snd (move l src dst amount)) = unat (balances l src)"
proof -
  let ?t = "snd (move l src dst amount)"
  have le: "?t \<le> balances l src" by (simp add: move_transferred clamp_le_available)
  then have "unat (balances l src - ?t) = unat (balances l src) - unat ?t"
    by (simp add: unat_sub)
  moreover from le have "unat ?t \<le> unat (balances l src)" by (simp add: word_le_nat_alt)
  ultimately show ?thesis using assms by (simp add: move_src)
qed

lemma move_totalSupply:
  assumes "supply_fits l"
  shows "totalSupply (fst (move l src dst amount)) = totalSupply l"
proof (cases "src = dst")
  case True
  then show ?thesis by (simp add: totalSupply_def move_self)
next
  case False
  let ?l' = "fst (move l src dst amount)"
  let ?t = "snd (move l src dst amount)"
  let ?f = "\<lambda>a. unat (balances l a)"
  have eq: "(\<lambda>a. unat (balances ?l' a)) = ?f(src := unat (balances ?l' src), dst := unat (balances ?l' dst))"
    using False by (auto simp: fun_eq_iff move_other)
  have "sum (?f(src := unat (balances ?l' src), dst := unat (balances ?l' dst))) UNIV + ?f src + ?f dst
        = sum ?f UNIV + unat (balances ?l' src) + unat (balances ?l' dst)"
    using False by (rule sum_upd2)
  moreover have "unat (balances ?l' dst) = ?f dst + unat ?t"
    using assms False by (rule move_dst_unat)
  moreover have "unat (balances ?l' src) + unat ?t = ?f src"
    using False by (rule move_src_unat)
  ultimately have "sum (?f(src := unat (balances ?l' src), dst := unat (balances ?l' dst))) UNIV = sum ?f UNIV"
    by linarith
  then have "sum (\<lambda>a. unat (balances ?l' a)) UNIV = sum ?f UNIV"
    by (simp only: eq)
  then show ?thesis by (simp only: totalSupply_def)
qed

lemma totalSupply_fixtureLedger: "totalSupply (fixtureLedger m a s) = unat a + unat s"
proof -
  have ne: "alice \<noteq> swapAddress" by (simp add: alice_def swapAddress_def)
  have eq: "(\<lambda>account. unat (balances (fixtureLedger m a s) account)) = (\<lambda>_. 0)(alice := unat a, swapAddress := unat s)"
    by (auto simp: fixtureLedger_def setOperator_def fun_eq_iff)
  have "sum ((\<lambda>_. 0)(alice := unat a, swapAddress := unat s)) (UNIV :: address set) + 0 + 0
      = sum (\<lambda>_. 0 :: nat) (UNIV :: address set) + unat a + unat s"
    by (rule sum_upd2[OF ne, of "\<lambda>_. 0" "unat a" "unat s"])
  then have s: "sum ((\<lambda>_. 0)(alice := unat a, swapAddress := unat s)) (UNIV :: address set) = unat a + unat s"
    by simp
  show ?thesis unfolding totalSupply_def by (simp only: eq s)
qed

lemma supply_fits_fixtureLedger:
  "unat a + unat s < 2 ^ 64 \<Longrightarrow> supply_fits (fixtureLedger m a s)"
  by (simp add: supply_fits_def totalSupply_fixtureLedger)

subsection \<open>The conversions and the two swaps\<close>

lemma forward_unat:
  "unat amountIn * 3100 < 2 ^ 64 \<Longrightarrow> unat (FHE_mul amountIn WETH_TO_WUSDT_RATE) = unat amountIn * 3100"
  by (simp add: FHE_mul_def WETH_TO_WUSDT_RATE_def unat_word_ariths)

lemma reverse_unat: "unat (FHE_div x WETH_TO_WUSDT_RATE) = unat x div 3100"
  by (simp add: FHE_div_def WETH_TO_WUSDT_RATE_def unat_div)

lemma swapWethForWusdt_Inr:
  assumes "swapWethForWusdt now sw ch msg_sender inp = Inr (ch', out, ev)"
  shows "boundContract inp = this sw \<and> boundUser inp = msg_sender
    \<and> isOperator now (ch (wETH sw)) msg_sender (this sw)
    \<and> ch' = (ch(wETH sw := fst (move (ch (wETH sw)) msg_sender (this sw) (cleartext inp))))
            (wUSDT sw := fst (move ((ch(wETH sw := fst (move (ch (wETH sw)) msg_sender (this sw) (cleartext inp)))) (wUSDT sw))
                                    (this sw) msg_sender (FHE_mul (cleartext inp) WETH_TO_WUSDT_RATE)))
    \<and> out = snd (move ((ch(wETH sw := fst (move (ch (wETH sw)) msg_sender (this sw) (cleartext inp)))) (wUSDT sw))
                                    (this sw) msg_sender (FHE_mul (cleartext inp) WETH_TO_WUSDT_RATE))
    \<and> ev = SwapWethForWusdt msg_sender (cleartext inp) out"
  using assms
  by (auto simp: swapWethForWusdt_def FHE_fromExternal_def confidentialTransferFrom_def
      confidentialTransfer_def Let_def split: if_splits prod.splits)

lemma swapWusdtForWeth_Inr:
  assumes "swapWusdtForWeth now sw ch msg_sender inp = Inr (ch', out, ev)"
  shows "boundContract inp = this sw \<and> boundUser inp = msg_sender
    \<and> isOperator now (ch (wUSDT sw)) msg_sender (this sw)
    \<and> ch' = (ch(wUSDT sw := fst (move (ch (wUSDT sw)) msg_sender (this sw) (cleartext inp))))
            (wETH sw := fst (move ((ch(wUSDT sw := fst (move (ch (wUSDT sw)) msg_sender (this sw) (cleartext inp)))) (wETH sw))
                                    (this sw) msg_sender (FHE_div (cleartext inp) WETH_TO_WUSDT_RATE)))
    \<and> out = snd (move ((ch(wUSDT sw := fst (move (ch (wUSDT sw)) msg_sender (this sw) (cleartext inp)))) (wETH sw))
                                    (this sw) msg_sender (FHE_div (cleartext inp) WETH_TO_WUSDT_RATE))
    \<and> ev = SwapWusdtForWeth msg_sender (cleartext inp) out"
  using assms
  by (auto simp: swapWusdtForWeth_def FHE_fromExternal_def confidentialTransferFrom_def
      confidentialTransfer_def Let_def split: if_splits prod.splits)

lemma swapWethForWusdt_reverts_iff:
  "(\<exists>e. swapWethForWusdt now sw ch msg_sender inp = Inl e)
     = (\<not> (boundContract inp = this sw \<and> boundUser inp = msg_sender)
        \<or> \<not> isOperator now (ch (wETH sw)) msg_sender (this sw))"
  by (auto simp: swapWethForWusdt_def FHE_fromExternal_def confidentialTransferFrom_def
      confidentialTransfer_def Let_def split: prod.splits)

lemma swapWusdtForWeth_reverts_iff:
  "(\<exists>e. swapWusdtForWeth now sw ch msg_sender inp = Inl e)
     = (\<not> (boundContract inp = this sw \<and> boundUser inp = msg_sender)
        \<or> \<not> isOperator now (ch (wUSDT sw)) msg_sender (this sw))"
  by (auto simp: swapWusdtForWeth_def FHE_fromExternal_def confidentialTransferFrom_def
      confidentialTransfer_def Let_def split: prod.splits)

lemma swapWusdtForWeth_succeeds:
  assumes "boundContract inp = this sw" "boundUser inp = msg_sender"
    and "isOperator now (ch (wUSDT sw)) msg_sender (this sw)"
  shows "swapWusdtForWeth now sw ch msg_sender inp =
    Inr ((ch(wUSDT sw := fst (move (ch (wUSDT sw)) msg_sender (this sw) (cleartext inp))))
            (wETH sw := fst (move ((ch(wUSDT sw := fst (move (ch (wUSDT sw)) msg_sender (this sw) (cleartext inp)))) (wETH sw))
                                    (this sw) msg_sender (FHE_div (cleartext inp) WETH_TO_WUSDT_RATE))),
         snd (move ((ch(wUSDT sw := fst (move (ch (wUSDT sw)) msg_sender (this sw) (cleartext inp)))) (wETH sw))
                                    (this sw) msg_sender (FHE_div (cleartext inp) WETH_TO_WUSDT_RATE)),
         SwapWusdtForWeth msg_sender (cleartext inp)
           (snd (move ((ch(wUSDT sw := fst (move (ch (wUSDT sw)) msg_sender (this sw) (cleartext inp)))) (wETH sw))
                                    (this sw) msg_sender (FHE_div (cleartext inp) WETH_TO_WUSDT_RATE))))"
  using assms
  by (simp add: swapWusdtForWeth_def FHE_fromExternal_def confidentialTransferFrom_def
      confidentialTransfer_def Let_def split: prod.splits)

lemma move_zero: "move l src dst 0 = (l, 0)"
  by (simp add: move_def clamp_def Let_def)

lemma reverse_floor_aux:
  "unat (FHE_div x WETH_TO_WUSDT_RATE) = unat x div 3100
   \<and> (x < 3100 \<longrightarrow> FHE_div x WETH_TO_WUSDT_RATE = 0)
   \<and> (cleartext inp = 3099 \<and> boundContract inp = this sw \<and> boundUser inp = msg_sender
        \<and> isOperator now (ch (wUSDT sw)) msg_sender (this sw)
        \<and> 3099 \<le> balanceOf (ch (wUSDT sw)) msg_sender
        \<and> msg_sender \<noteq> this sw \<and> wETH sw \<noteq> wUSDT sw
      \<longrightarrow> (\<exists>ch' ev. swapWusdtForWeth now sw ch msg_sender inp = Inr (ch', 0, ev)
             \<and> balanceOf (ch' (wETH sw)) = balanceOf (ch (wETH sw))
             \<and> unat (balanceOf (ch' (wUSDT sw)) msg_sender) + 3099
                 = unat (balanceOf (ch (wUSDT sw)) msg_sender)))"
proof (intro conjI impI)
  show "unat (FHE_div x WETH_TO_WUSDT_RATE) = unat x div 3100"
    by (rule reverse_unat)
next
  assume "x < 3100"
  then have "unat x < 3100" by (simp add: word_less_nat_alt)
  then have "unat (FHE_div x WETH_TO_WUSDT_RATE) = 0" by (simp add: reverse_unat)
  then show "FHE_div x WETH_TO_WUSDT_RATE = 0" by (simp add: unat_eq_0)
next
  assume a: "cleartext inp = 3099 \<and> boundContract inp = this sw \<and> boundUser inp = msg_sender
        \<and> isOperator now (ch (wUSDT sw)) msg_sender (this sw)
        \<and> 3099 \<le> balanceOf (ch (wUSDT sw)) msg_sender
        \<and> msg_sender \<noteq> this sw \<and> wETH sw \<noteq> wUSDT sw"
  let ?B = "ch (wUSDT sw)"
  let ?m1 = "move ?B msg_sender (this sw) 3099"
  have q: "FHE_div 3099 WETH_TO_WUSDT_RATE = 0"
    by (simp add: FHE_div_def WETH_TO_WUSDT_RATE_def)
  have r: "swapWusdtForWeth now sw ch msg_sender inp =
      Inr ((ch(wUSDT sw := fst ?m1))(wETH sw := ch (wETH sw)), 0, SwapWusdtForWeth msg_sender 3099 0)"
    using a swapWusdtForWeth_succeeds[of inp sw msg_sender now ch]
    by (simp add: q move_zero)
  have t: "snd ?m1 = 3099"
    using a by (simp add: move_transferred clamp_exact balanceOf_def)
  have "unat (balances (fst ?m1) msg_sender) + unat (snd ?m1) = unat (balances ?B msg_sender)"
    using a by (intro move_src_unat) simp
  then have d: "unat (balanceOf (fst ?m1) msg_sender) + 3099 = unat (balanceOf ?B msg_sender)"
    by (simp add: t balanceOf_def)
  have "balanceOf (((ch(wUSDT sw := fst ?m1))(wETH sw := ch (wETH sw))) (wETH sw)) = balanceOf (ch (wETH sw))"
    by simp
  moreover have "unat (balanceOf (((ch(wUSDT sw := fst ?m1))(wETH sw := ch (wETH sw))) (wUSDT sw)) msg_sender) + 3099
      = unat (balanceOf ?B msg_sender)"
  proof -
    from a have "wUSDT sw \<noteq> wETH sw" by auto
    then show ?thesis using d by simp
  qed
  ultimately show "\<exists>ch' ev. swapWusdtForWeth now sw ch msg_sender inp = Inr (ch', 0, ev)
             \<and> balanceOf (ch' (wETH sw)) = balanceOf (ch (wETH sw))
             \<and> unat (balanceOf (ch' (wUSDT sw)) msg_sender) + 3099
                 = unat (balanceOf (ch (wUSDT sw)) msg_sender)"
    using r by blast
qed

lemma swapWusdtForWeth_floor:
  assumes a: "swapWusdtForWeth now sw ch msg_sender inp = Inr (ch', out, ev)"
  shows "(\<exists>l1 transferredIn amountOut l2.
            confidentialTransferFrom now (ch (wUSDT sw)) (this sw) msg_sender (this sw) (cleartext inp)
              = Inr (l1, transferredIn)
          \<and> unat amountOut = unat (cleartext inp) div 3100
          \<and> confidentialTransfer ((ch(wUSDT sw := l1)) (wETH sw)) (this sw) msg_sender amountOut
              = Inr (l2, out))
       \<and> (cleartext inp < 3100 \<longrightarrow> out = 0)
       \<and> (wETH sw \<noteq> wUSDT sw
            \<and> unat (cleartext inp) div 3100 \<le> unat (balanceOf (ch (wETH sw)) (this sw))
          \<longrightarrow> unat out = unat (cleartext inp) div 3100)
       \<and> (wETH sw \<noteq> wUSDT sw \<and> msg_sender \<noteq> this sw \<and> supply_fits (ch (wETH sw))
          \<longrightarrow> unat (balanceOf (ch' (wETH sw)) msg_sender)
                = unat (balanceOf (ch (wETH sw)) msg_sender) + unat out)"
proof -
  note f = swapWusdtForWeth_Inr[OF a]
  let ?q = "FHE_div (cleartext inp) WETH_TO_WUSDT_RATE"
  let ?m1 = "move (ch (wUSDT sw)) msg_sender (this sw) (cleartext inp)"
  let ?m2 = "move ((ch(wUSDT sw := fst ?m1)) (wETH sw)) (this sw) msg_sender ?q"
  have out: "out = snd ?m2" using f by simp
  have 1: "confidentialTransferFrom now (ch (wUSDT sw)) (this sw) msg_sender (this sw) (cleartext inp)
      = Inr (fst ?m1, snd ?m1)"
    using f by (simp add: confidentialTransferFrom_def)
  have 2: "unat ?q = unat (cleartext inp) div 3100" by (rule reverse_unat)
  have 3: "confidentialTransfer ((ch(wUSDT sw := fst ?m1)) (wETH sw)) (this sw) msg_sender ?q = Inr (fst ?m2, out)"
    by (simp add: confidentialTransfer_def out)
  have A: "\<exists>l1 transferredIn amountOut l2.
            confidentialTransferFrom now (ch (wUSDT sw)) (this sw) msg_sender (this sw) (cleartext inp)
              = Inr (l1, transferredIn)
          \<and> unat amountOut = unat (cleartext inp) div 3100
          \<and> confidentialTransfer ((ch(wUSDT sw := l1)) (wETH sw)) (this sw) msg_sender amountOut
              = Inr (l2, out)"
    using 1 2 3 by blast
  have B: "cleartext inp < 3100 \<longrightarrow> out = 0"
  proof
    assume "cleartext inp < 3100"
    then have "unat (cleartext inp) < 3100" by (simp add: word_less_nat_alt)
    then have "unat ?q = 0" by (simp add: reverse_unat)
    then have "?q = 0" by (simp add: unat_eq_0)
    then show "out = 0" by (simp add: out move_zero)
  qed
  have C: "wETH sw \<noteq> wUSDT sw
            \<and> unat (cleartext inp) div 3100 \<le> unat (balanceOf (ch (wETH sw)) (this sw))
          \<longrightarrow> unat out = unat (cleartext inp) div 3100"
  proof
    assume h: "wETH sw \<noteq> wUSDT sw
            \<and> unat (cleartext inp) div 3100 \<le> unat (balanceOf (ch (wETH sw)) (this sw))"
    then have "?q \<le> balances (ch (wETH sw)) (this sw)"
      by (simp add: word_le_nat_alt reverse_unat balanceOf_def)
    moreover from h have "(ch(wUSDT sw := fst ?m1)) (wETH sw) = ch (wETH sw)" by auto
    ultimately have "out = ?q" by (simp add: out move_transferred clamp_exact)
    then show "unat out = unat (cleartext inp) div 3100" by (simp add: reverse_unat)
  qed
  have D: "wETH sw \<noteq> wUSDT sw \<and> msg_sender \<noteq> this sw \<and> supply_fits (ch (wETH sw))
          \<longrightarrow> unat (balanceOf (ch' (wETH sw)) msg_sender)
                = unat (balanceOf (ch (wETH sw)) msg_sender) + unat out"
  proof
    assume h: "wETH sw \<noteq> wUSDT sw \<and> msg_sender \<noteq> this sw \<and> supply_fits (ch (wETH sw))"
    then have e: "(ch(wUSDT sw := fst ?m1)) (wETH sw) = ch (wETH sw)" by auto
    have c: "ch' (wETH sw) = fst (move (ch (wETH sw)) (this sw) msg_sender ?q)"
      using f e by simp
    have o: "out = snd (move (ch (wETH sw)) (this sw) msg_sender ?q)"
      using out e by simp
    from h have fits: "supply_fits (ch (wETH sw))" and ne: "this sw \<noteq> msg_sender" by auto
    show "unat (balanceOf (ch' (wETH sw)) msg_sender)
                = unat (balanceOf (ch (wETH sw)) msg_sender) + unat out"
      unfolding c o balanceOf_def using fits ne by (rule move_dst_unat)
  qed
  from A B C D show ?thesis by (intro conjI)
qed

subsection \<open>The decrypt handshake\<close>

lemma decryptBalance_started:
  assumes "decryptBalance_start e st token = Started es rest"
  shows "decryptBalance e st token =
      [SetIsDecrypting (Some token), SetStatusMessage None]
      @ handshake e token (the (pick token (encryptedBalances st))) (the (typedAddresses e st)) (the (address st))
      @ [SetIsDecrypting None]"
  using assms
  by (auto simp: decryptBalance_def decryptBalance_start_def Let_def split: if_splits)

lemma handshake_unfold:
  "handshake e token handle typed userAddress =
     [GenerateKeypair,
      CreateEIP712 (fst (generateKeypair e)) [if token = Weth then weth typed else wusdt typed]
        (startTimeStamp e) durationDays,
      SignTypedData]
     @ (case signTypedData e of
          Inl err \<Rightarrow> [SetStatusMessage (Some (message err ''Failed to decrypt balance''))]
        | Inr signature \<Rightarrow>
            UserDecrypt [(handle, if token = Weth then weth typed else wusdt typed)]
              (snd (generateKeypair e)) (fst (generateKeypair e)) (replace0x signature)
              [if token = Weth then weth typed else wusdt typed] userAddress
              (startTimeStamp e) durationDays
            # (case userDecrypt e of
                 Inl err \<Rightarrow> [SetStatusMessage (Some (message err ''Failed to decrypt balance''))]
               | Inr result \<Rightarrow>
                   (case result handle of
                      Inl err \<Rightarrow> [SetStatusMessage (Some (message err ''Failed to decrypt balance''))]
                    | Inr normalized \<Rightarrow> [SetDecryptedBalance token normalized])))"
  by (simp add: handshake_def Let_def case_prod_beta)

lemma handshake_validity:
  "x \<in> set (handshake e token handle typed userAddress) \<Longrightarrow>
     validity_of x = None \<or> validity_of x = Some (startTimeStamp e, durationDays)"
  unfolding handshake_unfold
  by (cases "signTypedData e"; cases "userDecrypt e"; cases "projr (userDecrypt e) handle") auto

lemma handshake_creates_payload:
  "\<exists>publicKey contractAddresses.
     CreateEIP712 publicKey contractAddresses (startTimeStamp e) durationDays
       \<in> set (handshake e token handle typed userAddress)"
  unfolding handshake_unfold by auto

lemma toString_10: "toString 10 = ''10''"
  by (simp add: toString.simps digits_def)

section \<open>The properties\<close>

subsection \<open>Swap conservation\<close>

text \<open>
  C1, as amended. After a successful \<^verbatim>\<open>swapWethForWusdt\<close> by a caller other than the
  contract, on two distinct token ledgers whose supplies fit 64 bits: the caller's wETH
  balance decreases by exactly the amount \<^verbatim>\<open>confidentialTransferFrom\<close> reports as debited;
  the caller's wUSDT balance increases by exactly the returned \<^verbatim>\<open>transferredOut\<close>, which
  is the forward conversion of the debited amount when the debit was not clamped and the
  contract's wUSDT balance covers the converted amount; the total supply of each token is
  unchanged.
\<close>

theorem swapWethForWusdt_conservation:
  assumes ok: "swapWethForWusdt now sw ch msg_sender inp = Inr (ch', transferredOut, ev)"
    and sender: "msg_sender \<noteq> this sw"
    and tokens: "wETH sw \<noteq> wUSDT sw"
    and fitsA: "supply_fits (ch (wETH sw))"
    and fitsB: "supply_fits (ch (wUSDT sw))"
  shows "\<exists>l1 debited.
      confidentialTransferFrom now (ch (wETH sw)) (this sw) msg_sender (this sw) (cleartext inp)
        = Inr (l1, debited)
    \<and> unat (balanceOf (ch' (wETH sw)) msg_sender) + unat debited
        = unat (balanceOf (ch (wETH sw)) msg_sender)
    \<and> unat (balanceOf (ch' (wUSDT sw)) msg_sender)
        = unat (balanceOf (ch (wUSDT sw)) msg_sender) + unat transferredOut
    \<and> (debited = cleartext inp
         \<and> FHE_mul debited WETH_TO_WUSDT_RATE \<le> balanceOf (ch (wUSDT sw)) (this sw)
        \<longrightarrow> transferredOut = FHE_mul debited WETH_TO_WUSDT_RATE)
    \<and> totalSupply (ch' (wETH sw)) = totalSupply (ch (wETH sw))
    \<and> totalSupply (ch' (wUSDT sw)) = totalSupply (ch (wUSDT sw))"
proof -
  note f = swapWethForWusdt_Inr[OF ok]
  let ?A = "ch (wETH sw)" and ?B = "ch (wUSDT sw)"
  let ?m1 = "move ?A msg_sender (this sw) (cleartext inp)"
  let ?m2 = "move ?B (this sw) msg_sender (FHE_mul (cleartext inp) WETH_TO_WUSDT_RATE)"
  have chA: "ch' (wETH sw) = fst ?m1" using f tokens by simp
  have chB: "ch' (wUSDT sw) = fst ?m2" using f tokens by simp
  have out: "transferredOut = snd ?m2" using f tokens by simp
  have 1: "confidentialTransferFrom now ?A (this sw) msg_sender (this sw) (cleartext inp) = Inr (fst ?m1, snd ?m1)"
    using f by (simp add: confidentialTransferFrom_def)
  have 2: "unat (balanceOf (ch' (wETH sw)) msg_sender) + unat (snd ?m1) = unat (balanceOf ?A msg_sender)"
    unfolding chA balanceOf_def using sender by (rule move_src_unat)
  have 3: "unat (balanceOf (ch' (wUSDT sw)) msg_sender) = unat (balanceOf ?B msg_sender) + unat transferredOut"
    unfolding chB out balanceOf_def using fitsB sender[symmetric] by (rule move_dst_unat)
  have 4: "snd ?m1 = cleartext inp \<and> FHE_mul (snd ?m1) WETH_TO_WUSDT_RATE \<le> balanceOf ?B (this sw)
        \<longrightarrow> transferredOut = FHE_mul (snd ?m1) WETH_TO_WUSDT_RATE"
    unfolding out by (auto simp: move_transferred balanceOf_def clamp_exact)
  have 5: "totalSupply (ch' (wETH sw)) = totalSupply ?A"
    unfolding chA using fitsA by (rule move_totalSupply)
  have 6: "totalSupply (ch' (wUSDT sw)) = totalSupply ?B"
    unfolding chB using fitsB by (rule move_totalSupply)
  from 1 2 3 4 5 6 show ?thesis by blast
qed

text \<open>
  The swap of the local test: 2 units of 5, against a funded contract.
\<close>

theorem swapWethForWusdt_conservation_witness:
  "alice \<noteq> this deployedSwap \<and> wETH deployedSwap \<noteq> wUSDT deployedSwap
   \<and> supply_fits (fixtureChain AllOrNothing (5 * UNIT) (20 * UNIT) (6200 * UNIT) (62000 * UNIT) (wETH deployedSwap))
   \<and> supply_fits (fixtureChain AllOrNothing (5 * UNIT) (20 * UNIT) (6200 * UNIT) (62000 * UNIT) (wUSDT deployedSwap))
   \<and> (case swapWethForWusdt 0 deployedSwap (fixtureChain AllOrNothing (5 * UNIT) (20 * UNIT) (6200 * UNIT) (62000 * UNIT))
              alice (encryptFor swapAddress alice (2 * UNIT)) of
         Inl e \<Rightarrow> False
       | Inr (ch', out, ev) \<Rightarrow>
           out = 6200 * UNIT
         \<and> unat (balanceOf (ch' wethAddress) alice) + unat (2 * UNIT) = unat (5 * UNIT)
         \<and> unat (balanceOf (ch' wusdtAddress) alice) = unat (6200 * UNIT) + unat (6200 * UNIT)
         \<and> totalSupply (ch' wethAddress) = unat (5 * UNIT) + unat (20 * UNIT)
         \<and> totalSupply (ch' wusdtAddress) = unat (6200 * UNIT) + unat (62000 * UNIT))"
proof -
  let ?c = "fixtureChain AllOrNothing (5 * UNIT) (20 * UNIT) (6200 * UNIT) (62000 * UNIT)"
  let ?inp = "encryptFor swapAddress alice (2 * UNIT)"
  have h1: "alice \<noteq> this deployedSwap" by (simp add: fixture_defs)
  have h2: "wETH deployedSwap \<noteq> wUSDT deployedSwap" by (simp add: fixture_defs)
  have w: "wETH deployedSwap = wethAddress" "wUSDT deployedSwap = wusdtAddress"
    by (simp_all add: deployedSwap_def)
  have cA: "?c wethAddress = fixtureLedger AllOrNothing (5 * UNIT) (20 * UNIT)"
    by (simp add: fixtureChain_def wethAddress_def wusdtAddress_def)
  have cB: "?c wusdtAddress = fixtureLedger AllOrNothing (6200 * UNIT) (62000 * UNIT)"
    by (simp add: fixtureChain_def wethAddress_def wusdtAddress_def)
  have h3: "supply_fits (?c (wETH deployedSwap))"
    unfolding w cA by (rule supply_fits_fixtureLedger) (simp add: UNIT_def)
  have h4: "supply_fits (?c (wUSDT deployedSwap))"
    unfolding w cB by (rule supply_fits_fixtureLedger) (simp add: UNIT_def)
  obtain ch' out ev where r: "swapWethForWusdt 0 deployedSwap ?c alice ?inp = Inr (ch', out, ev)"
    and o: "out = 6200 * UNIT"
    by (simp add: fixture_defs swap_defs Let_def)
  have tf: "confidentialTransferFrom 0 (?c (wETH deployedSwap)) (this deployedSwap) alice (this deployedSwap) (cleartext ?inp)
      = Inr (fst (move (?c (wETH deployedSwap)) alice (this deployedSwap) (cleartext ?inp)), 2 * UNIT)"
    by (simp add: fixture_defs swap_defs Let_def)
  have bA: "balanceOf (?c wethAddress) alice = 5 * UNIT"
    and bB: "balanceOf (?c wusdtAddress) alice = 6200 * UNIT"
    by (simp_all add: fixture_defs balanceOf_def)
  from swapWethForWusdt_conservation[OF r h1 h2 h3 h4]
  obtain l1 debited where
      t: "confidentialTransferFrom 0 (?c (wETH deployedSwap)) (this deployedSwap) alice (this deployedSwap) (cleartext ?inp)
            = Inr (l1, debited)"
    and a: "unat (balanceOf (ch' (wETH deployedSwap)) alice) + unat debited
            = unat (balanceOf (?c (wETH deployedSwap)) alice)"
    and b: "unat (balanceOf (ch' (wUSDT deployedSwap)) alice)
            = unat (balanceOf (?c (wUSDT deployedSwap)) alice) + unat out"
    and sA: "totalSupply (ch' (wETH deployedSwap)) = totalSupply (?c (wETH deployedSwap))"
    and sB: "totalSupply (ch' (wUSDT deployedSwap)) = totalSupply (?c (wUSDT deployedSwap))"
    by blast
  from t tf have d: "debited = 2 * UNIT" by simp
  have "unat (balanceOf (ch' wethAddress) alice) + unat (2 * UNIT) = unat (5 * UNIT)"
    using a unfolding w by (simp only: d bA)
  moreover have "unat (balanceOf (ch' wusdtAddress) alice) = unat (6200 * UNIT) + unat (6200 * UNIT)"
    using b unfolding w by (simp only: o bB)
  moreover have "totalSupply (ch' wethAddress) = unat (5 * UNIT) + unat (20 * UNIT)"
    using sA unfolding w by (simp only: cA totalSupply_fixtureLedger)
  moreover have "totalSupply (ch' wusdtAddress) = unat (6200 * UNIT) + unat (62000 * UNIT)"
    using sB unfolding w by (simp only: cB totalSupply_fixtureLedger)
  ultimately show ?thesis using h1 h2 h3 h4
    by (simp only: r o sum.case prod.case simp_thms)
qed

text \<open>
  C1 as stated fails. When the debit is clamped (the caller holds 1 unit and asks to swap 2),
  the caller's wUSDT balance still increases by the conversion of the requested 2 units, not
  by the conversion of what was debited (nothing, or 1 unit where the ledger saturates). When
  the contract holds no wUSDT, the caller is debited 2 units and credited nothing.
\<close>

theorem swapWethForWusdt_conservation_counterexample:
  "(case swapWethForWusdt 0 deployedSwap (fixtureChain AllOrNothing UNIT (20 * UNIT) 0 (62000 * UNIT)) alice
          (encryptFor swapAddress alice (2 * UNIT)) of
      Inl e \<Rightarrow> False
    | Inr (ch', out, ev) \<Rightarrow>
       (case confidentialTransferFrom 0 (fixtureChain AllOrNothing UNIT (20 * UNIT) 0 (62000 * UNIT) wethAddress)
               swapAddress alice swapAddress (2 * UNIT) of
          Inl e \<Rightarrow> False
        | Inr (l1, debited) \<Rightarrow>
            debited = 0
          \<and> balanceOf (ch' wusdtAddress) alice = 6200 * UNIT
          \<and> balanceOf (fixtureChain AllOrNothing UNIT (20 * UNIT) 0 (62000 * UNIT) wusdtAddress) alice
              + FHE_mul debited WETH_TO_WUSDT_RATE = 0))
   \<and> (case swapWethForWusdt 0 deployedSwap (fixtureChain Saturating UNIT (20 * UNIT) 0 (62000 * UNIT)) alice
          (encryptFor swapAddress alice (2 * UNIT)) of
      Inl e \<Rightarrow> False
    | Inr (ch', out, ev) \<Rightarrow>
       (case confidentialTransferFrom 0 (fixtureChain Saturating UNIT (20 * UNIT) 0 (62000 * UNIT) wethAddress)
               swapAddress alice swapAddress (2 * UNIT) of
          Inl e \<Rightarrow> False
        | Inr (l1, debited) \<Rightarrow>
            debited = UNIT
          \<and> balanceOf (ch' wusdtAddress) alice = 6200 * UNIT
          \<and> balanceOf (fixtureChain Saturating UNIT (20 * UNIT) 0 (62000 * UNIT) wusdtAddress) alice
              + FHE_mul debited WETH_TO_WUSDT_RATE = 3100 * UNIT))
   \<and> (case swapWethForWusdt 0 deployedSwap (fixtureChain AllOrNothing (5 * UNIT) (20 * UNIT) 0 0) alice
          (encryptFor swapAddress alice (2 * UNIT)) of
      Inl e \<Rightarrow> False
    | Inr (ch', out, ev) \<Rightarrow>
       (case confidentialTransferFrom 0 (fixtureChain AllOrNothing (5 * UNIT) (20 * UNIT) 0 0 wethAddress)
               swapAddress alice swapAddress (2 * UNIT) of
          Inl e \<Rightarrow> False
        | Inr (l1, debited) \<Rightarrow>
            debited = 2 * UNIT
          \<and> balanceOf (ch' wethAddress) alice = 3 * UNIT
          \<and> balanceOf (ch' wusdtAddress) alice = 0
          \<and> balanceOf (fixtureChain AllOrNothing (5 * UNIT) (20 * UNIT) 0 0 wusdtAddress) alice
              + FHE_mul debited WETH_TO_WUSDT_RATE = 6200 * UNIT))"
  by (simp add: fixture_defs swap_defs Let_def)

subsection \<open>What a swap returns and sends\<close>



subsection \<open>The reverse conversion truncates\<close>

text \<open>
  C3. For every input of a successful \<^verbatim>\<open>swapWusdtForWeth\<close>, the amount the contract sends
  out is the input divided by 3100, rounded down; it is 0 for every input below 3100. On
  distinct tokens that amount is what the swap returns when the contract's wETH balance
  covers it, and the caller's wETH balance increases by what the swap returns. A swap of
  3099 base units by a caller who holds them and has granted the contract operator status
  returns 0, leaves the wETH balances as they were and debits the caller's wUSDT balance
  by 3099.
\<close>

theorem reverse_is_floor_division:
  "(swapWusdtForWeth now sw ch msg_sender inp = Inr (ch', out, ev) \<longrightarrow>
       (\<exists>l1 transferredIn amountOut l2.
            confidentialTransferFrom now (ch (wUSDT sw)) (this sw) msg_sender (this sw) (cleartext inp)
              = Inr (l1, transferredIn)
          \<and> unat amountOut = unat (cleartext inp) div 3100
          \<and> confidentialTransfer ((ch(wUSDT sw := l1)) (wETH sw)) (this sw) msg_sender amountOut
              = Inr (l2, out))
       \<and> (cleartext inp < 3100 \<longrightarrow> out = 0)
       \<and> (wETH sw \<noteq> wUSDT sw
            \<and> unat (cleartext inp) div 3100 \<le> unat (balanceOf (ch (wETH sw)) (this sw))
          \<longrightarrow> unat out = unat (cleartext inp) div 3100)
       \<and> (wETH sw \<noteq> wUSDT sw \<and> msg_sender \<noteq> this sw \<and> supply_fits (ch (wETH sw))
          \<longrightarrow> unat (balanceOf (ch' (wETH sw)) msg_sender)
                = unat (balanceOf (ch (wETH sw)) msg_sender) + unat out))
   \<and> (cleartext inp = 3099 \<and> boundContract inp = this sw \<and> boundUser inp = msg_sender
        \<and> isOperator now (ch (wUSDT sw)) msg_sender (this sw)
        \<and> 3099 \<le> balanceOf (ch (wUSDT sw)) msg_sender
        \<and> msg_sender \<noteq> this sw \<and> wETH sw \<noteq> wUSDT sw
      \<longrightarrow> (\<exists>ch'' ev'. swapWusdtForWeth now sw ch msg_sender inp = Inr (ch'', 0, ev')
             \<and> balanceOf (ch'' (wETH sw)) = balanceOf (ch (wETH sw))
             \<and> unat (balanceOf (ch'' (wUSDT sw)) msg_sender) + 3099
                 = unat (balanceOf (ch (wUSDT sw)) msg_sender)))"
proof (intro conjI)
  show "swapWusdtForWeth now sw ch msg_sender inp = Inr (ch', out, ev) \<longrightarrow>
       (\<exists>l1 transferredIn amountOut l2.
            confidentialTransferFrom now (ch (wUSDT sw)) (this sw) msg_sender (this sw) (cleartext inp)
              = Inr (l1, transferredIn)
          \<and> unat amountOut = unat (cleartext inp) div 3100
          \<and> confidentialTransfer ((ch(wUSDT sw := l1)) (wETH sw)) (this sw) msg_sender amountOut
              = Inr (l2, out))
       \<and> (cleartext inp < 3100 \<longrightarrow> out = 0)
       \<and> (wETH sw \<noteq> wUSDT sw
            \<and> unat (cleartext inp) div 3100 \<le> unat (balanceOf (ch (wETH sw)) (this sw))
          \<longrightarrow> unat out = unat (cleartext inp) div 3100)
       \<and> (wETH sw \<noteq> wUSDT sw \<and> msg_sender \<noteq> this sw \<and> supply_fits (ch (wETH sw))
          \<longrightarrow> unat (balanceOf (ch' (wETH sw)) msg_sender)
                = unat (balanceOf (ch (wETH sw)) msg_sender) + unat out)"
    by (rule impI) (rule swapWusdtForWeth_floor)
  show "cleartext inp = 3099 \<and> boundContract inp = this sw \<and> boundUser inp = msg_sender
        \<and> isOperator now (ch (wUSDT sw)) msg_sender (this sw)
        \<and> 3099 \<le> balanceOf (ch (wUSDT sw)) msg_sender
        \<and> msg_sender \<noteq> this sw \<and> wETH sw \<noteq> wUSDT sw
      \<longrightarrow> (\<exists>ch'' ev'. swapWusdtForWeth now sw ch msg_sender inp = Inr (ch'', 0, ev')
             \<and> balanceOf (ch'' (wETH sw)) = balanceOf (ch (wETH sw))
             \<and> unat (balanceOf (ch'' (wUSDT sw)) msg_sender) + 3099
                 = unat (balanceOf (ch (wUSDT sw)) msg_sender))"
    using reverse_floor_aux[of 0 inp sw msg_sender now ch] by blast
qed

text \<open>
  The fixture of the local test: 6200 units of wUSDT give 2 units of wETH, and 3099 base
  units give nothing.
\<close>

theorem reverse_is_floor_division_witness:
  "(case swapWusdtForWeth 0 deployedSwap (fixtureChain AllOrNothing (5 * UNIT) (20 * UNIT) (6200 * UNIT) (62000 * UNIT))
             alice (encryptFor swapAddress alice (6200 * UNIT)) of
        Inl e \<Rightarrow> False
      | Inr (ch', out, ev) \<Rightarrow>
          unat out = unat (6200 * UNIT) div 3100 \<and> unat (6200 * UNIT) div 3100 = 2000000)
   \<and> 3099 \<le> balanceOf (fixtureChain AllOrNothing (5 * UNIT) (20 * UNIT) (6200 * UNIT) (62000 * UNIT) wusdtAddress) alice
   \<and> (case swapWusdtForWeth 0 deployedSwap (fixtureChain AllOrNothing (5 * UNIT) (20 * UNIT) (6200 * UNIT) (62000 * UNIT))
             alice (encryptFor swapAddress alice 3099) of
        Inl e \<Rightarrow> False
      | Inr (ch', out, ev) \<Rightarrow>
          out = 0 \<and> balanceOf (ch' wethAddress) alice = 5 * UNIT
        \<and> unat (balanceOf (ch' wusdtAddress) alice) + 3099 = unat (6200 * UNIT))"
proof -
  let ?c = "fixtureChain AllOrNothing (5 * UNIT) (20 * UNIT) (6200 * UNIT) (62000 * UNIT)"
  let ?i6 = "encryptFor swapAddress alice (6200 * UNIT)"
  let ?inp = "encryptFor swapAddress alice 3099"
  have w: "wETH deployedSwap = wethAddress" "wUSDT deployedSwap = wusdtAddress" "this deployedSwap = swapAddress"
    by (simp_all add: deployedSwap_def)
  obtain ch6 out6 ev6 where r6: "swapWusdtForWeth 0 deployedSwap ?c alice ?i6 = Inr (ch6, out6, ev6)"
    by (simp add: fixture_defs swap_defs Let_def)
  have g: "wETH deployedSwap \<noteq> wUSDT deployedSwap
      \<and> unat (cleartext ?i6) div 3100 \<le> unat (balanceOf (?c (wETH deployedSwap)) (this deployedSwap))"
    by (simp add: fixture_defs balanceOf_def)
  have c6: "cleartext ?i6 = 6200 * UNIT" by (simp add: encryptFor_def)
  from reverse_is_floor_division[of 0 deployedSwap ?c alice ?i6 ch6 out6 ev6] r6 g
  have "unat out6 = unat (cleartext ?i6) div 3100" by blast
  then have 1: "unat out6 = unat (6200 * UNIT) div 3100" by (simp only: c6)
  have 2: "unat (6200 * UNIT) div 3100 = (2000000 :: nat)" by (simp add: UNIT_def)
  have h: "cleartext ?inp = 3099 \<and> boundContract ?inp = this deployedSwap \<and> boundUser ?inp = alice
        \<and> isOperator 0 (?c (wUSDT deployedSwap)) alice (this deployedSwap)
        \<and> 3099 \<le> balanceOf (?c (wUSDT deployedSwap)) alice
        \<and> alice \<noteq> this deployedSwap \<and> wETH deployedSwap \<noteq> wUSDT deployedSwap"
    by (simp add: fixture_defs isOperator_def balanceOf_def)
  from reverse_is_floor_division[of 0 deployedSwap ?c alice ?inp] h
  obtain ch' ev where r: "swapWusdtForWeth 0 deployedSwap ?c alice ?inp = Inr (ch', 0, ev)"
    and a: "balanceOf (ch' (wETH deployedSwap)) = balanceOf (?c (wETH deployedSwap))"
    and b: "unat (balanceOf (ch' (wUSDT deployedSwap)) alice) + 3099 = unat (balanceOf (?c (wUSDT deployedSwap)) alice)"
    by blast
  have bA: "balanceOf (?c wethAddress) alice = 5 * UNIT"
    and bB: "balanceOf (?c wusdtAddress) alice = 6200 * UNIT"
    by (simp_all add: fixture_defs balanceOf_def)
  have 3: "balanceOf (ch' wethAddress) alice = 5 * UNIT"
    using a unfolding w by (simp only: bA)
  have 4: "unat (balanceOf (ch' wusdtAddress) alice) + 3099 = unat (6200 * UNIT)"
    using b unfolding w by (simp only: bB)
  from h have 7: "3099 \<le> balanceOf (?c wusdtAddress) alice"
    unfolding w by simp
  from 1 2 3 4 7 show ?thesis
    by (simp only: r r6 sum.case prod.case simp_thms)
qed

subsection \<open>Forward, then reverse\<close>

text \<open>
  C4, as amended. Converting forward and then back gives the amount again exactly when the
  forward multiplication does not overflow 64 bits, that is for amounts up to
  5950562604422436.
\<close>

theorem reverse_forward_roundtrip:
  "(FHE_div (FHE_mul amountIn WETH_TO_WUSDT_RATE) WETH_TO_WUSDT_RATE = amountIn)
     = (unat amountIn * 3100 < 2 ^ 64)"
proof (cases "unat amountIn * 3100 < 2 ^ 64")
  case True
  then have "unat (FHE_div (FHE_mul amountIn WETH_TO_WUSDT_RATE) WETH_TO_WUSDT_RATE) = unat amountIn"
    by (simp add: reverse_unat forward_unat)
  then have "FHE_div (FHE_mul amountIn WETH_TO_WUSDT_RATE) WETH_TO_WUSDT_RATE = amountIn"
    by (simp only: word_unat_eq_iff)
  with True show ?thesis by simp
next
  case False
  have "unat (FHE_mul amountIn WETH_TO_WUSDT_RATE) < 2 ^ 64"
    using unsigned_less[of "FHE_mul amountIn WETH_TO_WUSDT_RATE"] by simp
  then have "unat (FHE_div (FHE_mul amountIn WETH_TO_WUSDT_RATE) WETH_TO_WUSDT_RATE) * 3100 < 2 ^ 64"
    by (simp add: reverse_unat)
  with False have "unat (FHE_div (FHE_mul amountIn WETH_TO_WUSDT_RATE) WETH_TO_WUSDT_RATE) \<noteq> unat amountIn"
    by auto
  then have "FHE_div (FHE_mul amountIn WETH_TO_WUSDT_RATE) WETH_TO_WUSDT_RATE \<noteq> amountIn"
    by auto
  with False show ?thesis by simp
qed

theorem reverse_forward_roundtrip_witness:
  "unat (2 * UNIT) * 3100 < 2 ^ 64
   \<and> FHE_div (FHE_mul (2 * UNIT) WETH_TO_WUSDT_RATE) WETH_TO_WUSDT_RATE = 2 * UNIT"
proof -
  have h: "unat (2 * UNIT) * 3100 < 2 ^ 64" by (simp add: UNIT_def)
  with reverse_forward_roundtrip [of "2 * UNIT"] show ?thesis by simp
qed

text \<open>
  C4 as stated fails for the first amount whose product overflows: the product wraps to
  3084, and dividing gives 0.
\<close>

theorem reverse_forward_counterexample:
  "FHE_mul 5950562604422437 WETH_TO_WUSDT_RATE = 3084
   \<and> FHE_div (FHE_mul 5950562604422437 WETH_TO_WUSDT_RATE) WETH_TO_WUSDT_RATE = 0"
  by (simp add: FHE_mul_def FHE_div_def WETH_TO_WUSDT_RATE_def)

subsection \<open>A reverted swap\<close>

text \<open>
  C5, as amended. A swap reverts exactly when the input proof is not bound to the contract
  and the caller, or the caller's operator grant to the contract on the incoming token is
  missing or expired; the transaction then leaves the chain state, and so both balance
  mappings, as it was.
\<close>

theorem swap_revert_leaves_state:
  "((\<exists>e. swapWethForWusdt now sw ch msg_sender inp = Inl e)
       = (\<not> (boundContract inp = this sw \<and> boundUser inp = msg_sender)
          \<or> \<not> isOperator now (ch (wETH sw)) msg_sender (this sw)))
   \<and> ((\<exists>e. swapWethForWusdt now sw ch msg_sender inp = Inl e)
       \<longrightarrow> transact (\<lambda>c. swapWethForWusdt now sw c msg_sender inp) ch = ch)
   \<and> ((\<exists>e. swapWusdtForWeth now sw ch msg_sender inp = Inl e)
       = (\<not> (boundContract inp = this sw \<and> boundUser inp = msg_sender)
          \<or> \<not> isOperator now (ch (wUSDT sw)) msg_sender (this sw)))
   \<and> ((\<exists>e. swapWusdtForWeth now sw ch msg_sender inp = Inl e)
       \<longrightarrow> transact (\<lambda>c. swapWusdtForWeth now sw c msg_sender inp) ch = ch)"
proof (intro conjI impI)
  show "(\<exists>e. swapWethForWusdt now sw ch msg_sender inp = Inl e)
       = (\<not> (boundContract inp = this sw \<and> boundUser inp = msg_sender)
          \<or> \<not> isOperator now (ch (wETH sw)) msg_sender (this sw))"
    by (rule swapWethForWusdt_reverts_iff)
  show "(\<exists>e. swapWusdtForWeth now sw ch msg_sender inp = Inl e)
       = (\<not> (boundContract inp = this sw \<and> boundUser inp = msg_sender)
          \<or> \<not> isOperator now (ch (wUSDT sw)) msg_sender (this sw))"
    by (rule swapWusdtForWeth_reverts_iff)
next
  assume "\<exists>e. swapWethForWusdt now sw ch msg_sender inp = Inl e"
  then show "transact (\<lambda>c. swapWethForWusdt now sw c msg_sender inp) ch = ch"
    by (auto simp: transact_def)
next
  assume "\<exists>e. swapWusdtForWeth now sw ch msg_sender inp = Inl e"
  then show "transact (\<lambda>c. swapWusdtForWeth now sw c msg_sender inp) ch = ch"
    by (auto simp: transact_def)
qed

text \<open>
  An expired grant, and a proof bound to another contract.
\<close>

theorem swap_revert_leaves_state_witness:
  "swapWethForWusdt 3600 deployedSwap (fixtureChain AllOrNothing (5 * UNIT) (20 * UNIT) (6200 * UNIT) (62000 * UNIT))
       alice (encryptFor swapAddress alice (2 * UNIT)) = Inl UnauthorizedSpender
   \<and> transact (\<lambda>c. swapWethForWusdt 3600 deployedSwap c alice (encryptFor swapAddress alice (2 * UNIT)))
        (fixtureChain AllOrNothing (5 * UNIT) (20 * UNIT) (6200 * UNIT) (62000 * UNIT))
       = fixtureChain AllOrNothing (5 * UNIT) (20 * UNIT) (6200 * UNIT) (62000 * UNIT)
   \<and> swapWusdtForWeth 0 deployedSwap (fixtureChain AllOrNothing (5 * UNIT) (20 * UNIT) (6200 * UNIT) (62000 * UNIT))
       alice (encryptFor wethAddress alice (6200 * UNIT)) = Inl InvalidInputProof
   \<and> transact (\<lambda>c. swapWusdtForWeth 0 deployedSwap c alice (encryptFor wethAddress alice (6200 * UNIT)))
        (fixtureChain AllOrNothing (5 * UNIT) (20 * UNIT) (6200 * UNIT) (62000 * UNIT))
       = fixtureChain AllOrNothing (5 * UNIT) (20 * UNIT) (6200 * UNIT) (62000 * UNIT)"
proof -
  let ?c = "fixtureChain AllOrNothing (5 * UNIT) (20 * UNIT) (6200 * UNIT) (62000 * UNIT)"
  have 1: "swapWethForWusdt 3600 deployedSwap ?c alice (encryptFor swapAddress alice (2 * UNIT)) = Inl UnauthorizedSpender"
    by (simp add: fixture_defs swap_defs Let_def)
  have 2: "swapWusdtForWeth 0 deployedSwap ?c alice (encryptFor wethAddress alice (6200 * UNIT)) = Inl InvalidInputProof"
    by (simp add: fixture_defs swap_defs Let_def)
  from 1 swap_revert_leaves_state[of 3600 deployedSwap ?c alice "encryptFor swapAddress alice (2 * UNIT)"]
  have 3: "transact (\<lambda>c. swapWethForWusdt 3600 deployedSwap c alice (encryptFor swapAddress alice (2 * UNIT))) ?c = ?c"
    by blast
  from 2 swap_revert_leaves_state[of 0 deployedSwap ?c alice "encryptFor wethAddress alice (6200 * UNIT)"]
  have 4: "transact (\<lambda>c. swapWusdtForWeth 0 deployedSwap c alice (encryptFor wethAddress alice (6200 * UNIT))) ?c = ?c"
    by blast
  from 1 2 3 4 show ?thesis by blast
qed

text \<open>
  C5 as stated counts a transfer-in shortfall among the failures. It is none: the caller
  holds 3100 units of wUSDT and swaps 6200; the call succeeds and credits 2 units of wETH,
  while nothing is debited (all of the 3100 units where the ledger saturates).
\<close>

theorem swap_shortfall_counterexample:
  "balanceOf (fixtureChain AllOrNothing 0 (20 * UNIT) (3100 * UNIT) (62000 * UNIT) wusdtAddress) alice < 6200 * UNIT
   \<and> (case swapWusdtForWeth 0 deployedSwap (fixtureChain AllOrNothing 0 (20 * UNIT) (3100 * UNIT) (62000 * UNIT))
            alice (encryptFor swapAddress alice (6200 * UNIT)) of
         Inl e \<Rightarrow> False | Inr (ch', out, ev) \<Rightarrow> out = 2 * UNIT)
   \<and> balanceOf (fixtureChain AllOrNothing 0 (20 * UNIT) (3100 * UNIT) (62000 * UNIT) wethAddress) alice = 0
   \<and> balanceOf (transact (\<lambda>c. swapWusdtForWeth 0 deployedSwap c alice (encryptFor swapAddress alice (6200 * UNIT)))
        (fixtureChain AllOrNothing 0 (20 * UNIT) (3100 * UNIT) (62000 * UNIT)) wethAddress) alice = 2 * UNIT
   \<and> balanceOf (transact (\<lambda>c. swapWusdtForWeth 0 deployedSwap c alice (encryptFor swapAddress alice (6200 * UNIT)))
        (fixtureChain AllOrNothing 0 (20 * UNIT) (3100 * UNIT) (62000 * UNIT)) wusdtAddress) alice = 3100 * UNIT
   \<and> balanceOf (transact (\<lambda>c. swapWusdtForWeth 0 deployedSwap c alice (encryptFor swapAddress alice (6200 * UNIT)))
        (fixtureChain Saturating 0 (20 * UNIT) (3100 * UNIT) (62000 * UNIT)) wethAddress) alice = 2 * UNIT
   \<and> balanceOf (transact (\<lambda>c. swapWusdtForWeth 0 deployedSwap c alice (encryptFor swapAddress alice (6200 * UNIT)))
        (fixtureChain Saturating 0 (20 * UNIT) (3100 * UNIT) (62000 * UNIT)) wusdtAddress) alice = 0"
  by (simp add: fixture_defs swap_defs Let_def)

subsection \<open>Decrypt requests in flight\<close>

text \<open>
  C6 does not hold of the component. The busy flag \<^verbatim>\<open>isDecrypting\<close> holds one token: the
  decrypt of the other token overwrites it. After the clicks wETH, wUSDT the wETH request
  is still in flight and the wETH button is enabled again; a third click starts a second
  wETH request beside the first.
\<close>

theorem decrypt_single_flight_violated:
  "inFlightCount (ui_run demoEnv \<lparr>app = demoApp, inFlight = []\<rparr> [ClickDecrypt Weth, ClickDecrypt Wusdt]) Weth = 1
   \<and> decryptDisabled (app (ui_run demoEnv \<lparr>app = demoApp, inFlight = []\<rparr> [ClickDecrypt Weth, ClickDecrypt Wusdt])) Weth = False
   \<and> inFlightCount (ui_run demoEnv \<lparr>app = demoApp, inFlight = []\<rparr>
        [ClickDecrypt Weth, ClickDecrypt Wusdt, ClickDecrypt Weth]) Weth = 2"
  by (simp add: ui_run_def inFlightCount_def decryptDisabled_def decryptBalance_start_def falsy_def
      typedAddresses_def addressesReady_def pick_def run_def demo_defs Let_def)

text \<open>
  The bound of one request in flight per token fails on this run.
\<close>

theorem decrypt_single_flight_violated_witness:
  "\<not> inFlightCount (ui_run demoEnv \<lparr>app = demoApp, inFlight = []\<rparr>
        [ClickDecrypt Weth, ClickDecrypt Wusdt, ClickDecrypt Weth]) Weth \<le> 1"
  using decrypt_single_flight_violated by simp

subsection \<open>Decrypting an uninitialised balance\<close>

text \<open>
  C7. When the stored handle is missing or the all-zero sentinel, \<^verbatim>\<open>decryptBalance\<close> fails
  closed: it performs no service call and never sets the busy flag, and its only effect is
  one user-facing status message: \<^verbatim>\<open>Encrypted balance not available yet.\<close>, or the message
  of the guard before the handle check where the wallet, the addresses or the encryption
  instance are missing.
\<close>

theorem decryptBalance_zero_handle_fails_closed:
  assumes "falsy (pick token (encryptedBalances st)) \<or> pick token (encryptedBalances st) = Some ZERO_HANDLE"
  shows "(\<forall>x \<in> set (decryptBalance e st token). \<not> is_service_call x \<and> \<not> enters_busy x)
       \<and> isDecrypting (run (decryptBalance e st token) st) = isDecrypting st
       \<and> decryptBalance e st token =
           [SetStatusMessage (Some (if falsy (address st) \<or> typedAddresses e st = None \<or> \<not> fhevmInstance st
               then ''Connect wallet and initialize encryption to decrypt balances.''
               else ''Encrypted balance not available yet.''))]"
proof -
  have eq: "decryptBalance e st token =
           [SetStatusMessage (Some (if falsy (address st) \<or> typedAddresses e st = None \<or> \<not> fhevmInstance st
               then ''Connect wallet and initialize encryption to decrypt balances.''
               else ''Encrypted balance not available yet.''))]"
    using assms by (simp add: decryptBalance_def decryptBalance_start_def Let_def)
  show ?thesis
    unfolding eq by (simp add: run_def)
qed

text \<open>
  A connected client whose wUSDT balance is the zero handle.
\<close>

theorem decryptBalance_zero_handle_fails_closed_witness:
  "pick Wusdt (encryptedBalances (demoApp\<lparr>encryptedBalances := \<lparr>weth = Some demoHandle, wusdt = Some ZERO_HANDLE\<rparr>\<rparr>)) = Some ZERO_HANDLE
   \<and> decryptBalance demoEnv (demoApp\<lparr>encryptedBalances := \<lparr>weth = Some demoHandle, wusdt = Some ZERO_HANDLE\<rparr>\<rparr>) Wusdt
       = [SetStatusMessage (Some ''Encrypted balance not available yet.'')]
   \<and> isDecrypting (run (decryptBalance demoEnv (demoApp\<lparr>encryptedBalances := \<lparr>weth = Some demoHandle, wusdt = Some ZERO_HANDLE\<rparr>\<rparr>) Wusdt)
         (demoApp\<lparr>encryptedBalances := \<lparr>weth = Some demoHandle, wusdt = Some ZERO_HANDLE\<rparr>\<rparr>)) = None"
proof -
  let ?st = "demoApp\<lparr>encryptedBalances := \<lparr>weth = Some demoHandle, wusdt = Some ZERO_HANDLE\<rparr>\<rparr>"
  have h: "pick Wusdt (encryptedBalances ?st) = Some ZERO_HANDLE"
    by (simp add: pick_def demoApp_def)
  have g: "\<not> (falsy (address ?st) \<or> typedAddresses demoEnv ?st = None \<or> \<not> fhevmInstance ?st)"
    by (simp add: falsy_def typedAddresses_def addressesReady_def demoApp_def demoEnv_def)
  have i: "isDecrypting ?st = None" by (simp add: demoApp_def)
  note t = decryptBalance_zero_handle_fails_closed[of Wusdt ?st demoEnv, OF disjI2[OF h]]
  from t have a: "isDecrypting (run (decryptBalance demoEnv ?st Wusdt) ?st) = isDecrypting ?st"
    by (rule conjunct2[THEN conjunct1])
  from t have b: "decryptBalance demoEnv ?st Wusdt =
      [SetStatusMessage (Some (if falsy (address ?st) \<or> typedAddresses demoEnv ?st = None \<or> \<not> fhevmInstance ?st
               then ''Connect wallet and initialize encryption to decrypt balances.''
               else ''Encrypted balance not available yet.''))]"
    by (rule conjunct2[THEN conjunct2])
  from b g have c: "decryptBalance demoEnv ?st Wusdt = [SetStatusMessage (Some ''Encrypted balance not available yet.'')]"
    by (simp only: if_False)
  from a i have d: "isDecrypting (run (decryptBalance demoEnv ?st Wusdt) ?st) = None"
    by (simp only:)
  from h c d show ?thesis by (intro conjI)
qed

subsection \<open>The constructor\<close>

text \<open>
  C8. The constructor reverts with \<^verbatim>\<open>InvalidTokenAddress\<close> when either token address is the
  null address, and creates no contract; otherwise it records both addresses, which
  \<^verbatim>\<open>getTokenAddresses\<close> returns.
\<close>

theorem constructor_rejects_null_address:
  "(wethAddress' = 0 \<or> wusdtAddress' = 0 \<longrightarrow>
      constructor deployedAt wethAddress' wusdtAddress' = Inl InvalidTokenAddress)
   \<and> (wethAddress' \<noteq> 0 \<and> wusdtAddress' \<noteq> 0 \<longrightarrow>
      (\<exists>sw. constructor deployedAt wethAddress' wusdtAddress' = Inr sw
         \<and> this sw = deployedAt \<and> wETH sw = wethAddress' \<and> wUSDT sw = wusdtAddress'
         \<and> getTokenAddresses sw = (wethAddress', wusdtAddress')))"
  by (simp add: constructor_def getTokenAddresses_def)

text \<open>
  Each null argument, and the deployment of the tests.
\<close>

theorem constructor_rejects_null_address_witness:
  "constructor swapAddress 0 wusdtAddress = Inl InvalidTokenAddress
   \<and> constructor swapAddress wethAddress 0 = Inl InvalidTokenAddress
   \<and> wethAddress \<noteq> 0 \<and> wusdtAddress \<noteq> 0
   \<and> constructor swapAddress wethAddress wusdtAddress = Inr deployedSwap
   \<and> getTokenAddresses deployedSwap = (wethAddress, wusdtAddress)"
  using constructor_rejects_null_address [of 0 wusdtAddress swapAddress]
    constructor_rejects_null_address [of wethAddress 0 swapAddress]
    constructor_rejects_null_address [of wethAddress wusdtAddress swapAddress]
  by (auto simp: wethAddress_def wusdtAddress_def deployedSwap_def getTokenAddresses_def)

subsection \<open>The validity window of a decrypt session\<close>

text \<open>
  C9, as amended. Every request of a started decrypt handshake that carries a validity
  window (\<^verbatim>\<open>createEIP712\<close>, \<^verbatim>\<open>userDecrypt\<close>) carries the same two values: the start
  time, which is the Unix time in seconds (\<^verbatim>\<open>Date.now()\<close> divided by 1000, rounded down)
  in decimal, and the duration \<^verbatim>\<open>10\<close>, a number of days.
\<close>

theorem decrypt_payload_validity:
  assumes "decryptBalance_start e st token = Started es rest"
  shows "startTimeStamp e = toString (nowMs e div 1000) \<and> durationDays = toString 10
       \<and> (\<exists>publicKey contractAddresses.
            CreateEIP712 publicKey contractAddresses (startTimeStamp e) durationDays
              \<in> set (decryptBalance e st token))
       \<and> (\<forall>x \<in> set (decryptBalance e st token).
            validity_of x = None \<or> validity_of x = Some (startTimeStamp e, durationDays))"
proof (intro conjI)
  show "startTimeStamp e = toString (nowMs e div 1000)" by (simp add: startTimeStamp_def)
  show "durationDays = toString 10" by (simp add: durationDays_def toString_10)
  note d = decryptBalance_started[OF assms]
  from handshake_creates_payload[of e token]
  show "\<exists>publicKey contractAddresses.
            CreateEIP712 publicKey contractAddresses (startTimeStamp e) durationDays
              \<in> set (decryptBalance e st token)"
    unfolding d by (simp only: set_append) blast
  show "\<forall>x \<in> set (decryptBalance e st token).
            validity_of x = None \<or> validity_of x = Some (startTimeStamp e, durationDays)"
    unfolding d using handshake_validity[of _ e token] by auto
qed

text \<open>
  The handshake of the connected client for wETH.
\<close>

theorem decrypt_payload_validity_witness:
  "decryptBalance_start demoEnv demoApp Weth =
      Started [SetIsDecrypting (Some Weth), SetStatusMessage None]
        (handshake demoEnv Weth demoHandle (addresses demoApp) ''0x00000000000000000000000000000000000A11CE''
         @ [SetIsDecrypting None])
   \<and> startTimeStamp demoEnv = ''1762128000'' \<and> durationDays = ''10''
   \<and> decryptBalance demoEnv demoApp Weth ! 3 =
        CreateEIP712 ''publicKey'' [''0x00000000000000000000000000000000000000E7''] ''1762128000'' ''10''
   \<and> validity_of (decryptBalance demoEnv demoApp Weth ! 3) = Some (startTimeStamp demoEnv, durationDays)
   \<and> validity_of (decryptBalance demoEnv demoApp Weth ! 5) = Some (startTimeStamp demoEnv, durationDays)"
proof -
  have s: "decryptBalance_start demoEnv demoApp Weth =
      Started [SetIsDecrypting (Some Weth), SetStatusMessage None]
        (handshake demoEnv Weth demoHandle (addresses demoApp) ''0x00000000000000000000000000000000000A11CE''
         @ [SetIsDecrypting None])"
    by (simp add: decryptBalance_start_def falsy_def typedAddresses_def addressesReady_def pick_def
        demo_defs Let_def)
  note t = decrypt_payload_validity[OF s]
  have n: "toString (nowMs demoEnv div 1000) = ''1762128000''"
    by (simp add: demoEnv_def toString.simps digits_def)
  from t n have a: "startTimeStamp demoEnv = ''1762128000''" by simp
  from t have b: "durationDays = ''10''" by (simp add: toString_10)
  have l: "decryptBalance demoEnv demoApp Weth =
     [SetIsDecrypting (Some Weth), SetStatusMessage None, GenerateKeypair,
      CreateEIP712 ''publicKey'' [''0x00000000000000000000000000000000000000E7''] ''1762128000'' ''10'',
      SignTypedData,
      UserDecrypt [(demoHandle, ''0x00000000000000000000000000000000000000E7'')] ''privateKey'' ''publicKey'' ''5161''
        [''0x00000000000000000000000000000000000000E7''] ''0x00000000000000000000000000000000000A11CE''
        ''1762128000'' ''10'',
      SetDecryptedBalance Weth 5000000, SetIsDecrypting None]"
    unfolding decryptBalance_def s
    by (simp add: handshake_def a b Let_def) (simp add: demoEnv_def demoApp_def)
  have m3: "decryptBalance demoEnv demoApp Weth ! 3 \<in> set (decryptBalance demoEnv demoApp Weth)"
    and m5: "decryptBalance demoEnv demoApp Weth ! 5 \<in> set (decryptBalance demoEnv demoApp Weth)"
    unfolding l by simp_all
  have c: "decryptBalance demoEnv demoApp Weth ! 3 =
        CreateEIP712 ''publicKey'' [''0x00000000000000000000000000000000000000E7''] ''1762128000'' ''10''"
    unfolding l by simp
  have n3: "validity_of (decryptBalance demoEnv demoApp Weth ! 3) \<noteq> None"
    and n5: "validity_of (decryptBalance demoEnv demoApp Weth ! 5) \<noteq> None"
    unfolding l by simp_all
  from t have all: "\<forall>x \<in> set (decryptBalance demoEnv demoApp Weth).
      validity_of x = None \<or> validity_of x = Some (startTimeStamp demoEnv, durationDays)"
    by (rule conjunct2[THEN conjunct2, THEN conjunct2])
  from bspec[OF all m3] n3
  have v3: "validity_of (decryptBalance demoEnv demoApp Weth ! 3) = Some (startTimeStamp demoEnv, durationDays)"
    by blast
  from bspec[OF all m5] n5
  have v5: "validity_of (decryptBalance demoEnv demoApp Weth ! 5) = Some (startTimeStamp demoEnv, durationDays)"
    by blast
  from s a b c v3 v5 show ?thesis by (intro conjI)
qed

text \<open>
  C9 as stated fails: the start time is a count of seconds, not of the days the duration
  counts.
\<close>

theorem decrypt_payload_unit_counterexample:
  "startTimeStamp demoEnv = ''1762128000'' \<and> startTimeInDays demoEnv = ''20395''
   \<and> startTimeStamp demoEnv \<noteq> startTimeInDays demoEnv \<and> durationDays = ''10''"
  by (simp add: startTimeStamp_def startTimeInDays_def durationDays_def demoEnv_def toString.simps digits_def)

subsection \<open>A refresh masks the balances\<close>

text \<open>
  C10. After a refresh whose reads succeed, both decrypted balances are \<^verbatim>\<open>null\<close>, whatever
  they were, and each is rendered as \<^verbatim>\<open>***\<close>.
\<close>

theorem refresh_resets_decrypted:
  assumes "\<not> falsy (address st)" and "typedAddresses e st \<noteq> None" and "readContracts e = Inr r"
  shows "decryptedBalances (run (refreshOnChainData e st) st) = \<lparr>weth = None, wusdt = None\<rparr>
       \<and> formatClear formatUnits (pick token (decryptedBalances (run (refreshOnChainData e st) st))) = ''***''"
proof -
  obtain a b c d where r: "r = (a, b, c, d)" by (cases r) auto
  have eq: "refreshOnChainData e st =
      [SetIsRefreshing True, SetStatusMessage None, ReadContracts,
       SetEncryptedBalances \<lparr>weth = Some a, wusdt = Some b\<rparr>,
       SetOperatorStatus \<lparr>weth = c, wusdt = d\<rparr>, ResetDecrypted, SetIsRefreshing False]"
    using assms by (simp add: refreshOnChainData_def r)
  have d: "decryptedBalances (run (refreshOnChainData e st) st) = \<lparr>weth = None, wusdt = None\<rparr>"
    unfolding eq by (simp add: run_def)
  show ?thesis
    unfolding d by (cases token) (simp_all add: formatClear_def pick_def)
qed

text \<open>
  The connected client with a revealed wETH balance.
\<close>

theorem refresh_resets_decrypted_witness:
  "\<not> falsy (address demoApp) \<and> typedAddresses demoEnv demoApp \<noteq> None
   \<and> readContracts demoEnv = Inr (demoHandle, ZERO_HANDLE, True, False)
   \<and> decryptedBalances demoApp = \<lparr>weth = Some 5000000, wusdt = None\<rparr>
   \<and> decryptedBalances (run (refreshOnChainData demoEnv demoApp) demoApp) = \<lparr>weth = None, wusdt = None\<rparr>
   \<and> formatClear (\<lambda>v d. ''5'') (pick Weth (decryptedBalances (run (refreshOnChainData demoEnv demoApp) demoApp))) = ''***''"
proof -
  have 1: "\<not> falsy (address demoApp)" by (simp add: falsy_def demoApp_def)
  have 2: "typedAddresses demoEnv demoApp \<noteq> None"
    by (simp add: typedAddresses_def addressesReady_def demoApp_def demoEnv_def)
  have 3: "readContracts demoEnv = Inr (demoHandle, ZERO_HANDLE, True, False)"
    by (simp add: demoEnv_def)
  have 4: "decryptedBalances demoApp = \<lparr>weth = Some 5000000, wusdt = None\<rparr>"
    by (simp add: demoApp_def)
  from refresh_resets_decrypted[OF 1 2 3, of "\<lambda>v d. ''5''" Weth] 1 2 3 4
  show ?thesis by blast
qed

end
